theory Spec2Isabelle
  imports Complex_Main
begin

section \<open>The elastic cable model of APICable.py\<close>

text \<open>
  The class \<open>RigidBodyRopes\<close> writes rigid links and joints for one vertical rope or for
  several radially distributed ropes into a USD stage. The embedding follows the source
  function by function. Python integers are \<open>int\<close>. The stage is the list of prims
  written so far, in the order of the writes, and a call that raises returns the prims
  written before the raise together with the error.

  Positions, orientations and joint numbers are written to the stage as they are
  computed, and there Python floats (and the half precision components of \<open>Gf.Quath\<close>)
  are read as real numbers: those equations are equations of exact real arithmetic.
  The number of links is different: \<open>int(self._ropeLength / linkLength)\<close> turns a float
  into an integer, so the rounding of the quotient decides the result, and an infinite
  quotient raises. That computation is modelled in IEEE binary64, round to nearest, ties
  to even.
\<close>

subsection \<open>Vectors and quaternions of the Gf library\<close>

type_synonym vec3 = "real \<times> real \<times> real"

text \<open>A quaternion is (real part, i, j, k), the argument order of \<open>Gf.Quath(w, x, y, z)\<close>.\<close>

type_synonym quat = "real \<times> real \<times> real \<times> real"

datatype error = ZeroDivisionError | UnboundLocalError | OverflowError | ValueError

text \<open>\<open>Gf.Quath(1.0)\<close>: real part 1, imaginary part zero.\<close>

definition quat_identity :: quat where
  "quat_identity = (1, 0, 0, 0)"

text \<open>The operator \<open>*\<close> of Gf quaternions is the Hamilton product.\<close>

fun quat_mul :: "quat \<Rightarrow> quat \<Rightarrow> quat" where
  "quat_mul (w1, x1, y1, z1) (w2, x2, y2, z2) =
     (w1 * w2 - x1 * x2 - y1 * y2 - z1 * z2,
      w1 * x2 + x1 * w2 + y1 * z2 - z1 * y2,
      w1 * y2 - x1 * z2 + y1 * w2 + z1 * x2,
      w1 * z2 + x1 * y2 - y1 * x2 + z1 * w2)"

text \<open>\<open>GetInverse\<close>: the conjugate divided by the squared length.\<close>

fun quat_inverse :: "quat \<Rightarrow> quat" where
  "quat_inverse (w, x, y, z) =
     (let n = w * w + x * x + y * y + z * z in (w / n, - x / n, - y / n, - z / n))"

text \<open>
  \<open>q.Transform(p)\<close>, which Gf documents as the imaginary part of
  \<open>q * Quat(0, p) * q.GetInverse()\<close>: the rotation of the point p by q.
\<close>

fun Transform :: "quat \<Rightarrow> vec3 \<Rightarrow> vec3" where
  "Transform q (px, py, pz) =
     (case quat_mul (quat_mul q (0, px, py, pz)) (quat_inverse q) of
        (w, x, y, z) \<Rightarrow> (x, y, z))"

text \<open>
  \<open>GetNormalized\<close> of a Gf vector divides by the length, or by the least length
  \<open>1e-10\<close> when the vector is shorter than that.
\<close>

fun GetNormalized :: "vec3 \<Rightarrow> vec3" where
  "GetNormalized (x, y, z) =
     (let l = sqrt (x * x + y * y + z * z);
          d = (if l > 1 / 10 ^ 10 then l else 1 / 10 ^ 10)
      in (x / d, y / d, z / d))"

fun cross :: "vec3 \<Rightarrow> vec3 \<Rightarrow> vec3" where
  "cross (a1, a2, a3) (b1, b2, b3) = (a2 * b3 - a3 * b2, a3 * b1 - a1 * b3, a1 * b2 - a2 * b1)"

text \<open>Two vectors are collinear when their cross product vanishes.\<close>

definition collinear3 :: "vec3 \<Rightarrow> vec3 \<Rightarrow> bool" where
  "collinear3 u v = (cross u v = (0, 0, 0))"

fun vnth :: "vec3 \<Rightarrow> nat \<Rightarrow> real" where
  "vnth (x, y, z) i = (if i = 0 then x else if i = 1 then y else z)"

subsection \<open>Python helpers\<close>

text \<open>\<open>range(n)\<close> for an integer n: empty when n is not positive.\<close>

definition py_range :: "int \<Rightarrow> int list" where
  "py_range n = map int [0..<nat n]"

subsection \<open>Python floats\<close>

text \<open>
  A Python float is an IEEE binary64 value: a finite one, given by the real number it
  stands for, an infinity or a NaN. Signed zeros are not told apart.
\<close>

datatype pyfloat = Finite real | PosInf | NegInf | NaN

text \<open>The powers of two, for exponents of either sign.\<close>

definition pow2 :: "int \<Rightarrow> real" where
  "pow2 k = (if 0 \<le> k then 2 ^ nat k else 1 / 2 ^ nat (- k))"

text \<open>The nearest integer, a tie going to the even one.\<close>

definition round_half_even :: "real \<Rightarrow> int" where
  "round_half_even y =
     (let f = \<lfloor>y\<rfloor>; d = y - of_int f
      in if d < 1 / 2 then f else if 1 / 2 < d then f + 1 else if even f then f else f + 1)"

text \<open>
  The binary exponent of a nonzero real, not below that of the subnormal numbers; the
  spacing of the binary64 values around it is two to this exponent minus 52.
\<close>

definition double_exponent :: "real \<Rightarrow> int" where
  "double_exponent x = max \<lfloor>log 2 \<bar>x\<bar>\<rfloor> (- 1022)"

definition overflow_threshold :: real where
  "overflow_threshold = 2 ^ 1024"

text \<open>
  The binary64 value of a real number: rounded to the nearest multiple of the spacing,
  ties to even, and to an infinity when the rounded value leaves the finite range. This
  is the value of a float literal and the result of every correctly rounded operation.
\<close>

definition double_of :: "real \<Rightarrow> pyfloat" where
  "double_of x =
     (if x = 0 then Finite 0
      else
        (let u = pow2 (double_exponent x - 52);
             r = of_int (round_half_even (x / u)) * u
         in if overflow_threshold \<le> r then PosInf
            else if r \<le> - overflow_threshold then NegInf
            else Finite r))"

text \<open>Float addition and multiplication: they never raise.\<close>

fun float_add :: "pyfloat \<Rightarrow> pyfloat \<Rightarrow> pyfloat" where
  "float_add (Finite x) (Finite y) = double_of (x + y)"
| "float_add NaN b = NaN"
| "float_add a NaN = NaN"
| "float_add PosInf NegInf = NaN"
| "float_add NegInf PosInf = NaN"
| "float_add PosInf b = PosInf"
| "float_add NegInf b = NegInf"
| "float_add a PosInf = PosInf"
| "float_add a NegInf = NegInf"

fun float_mul :: "pyfloat \<Rightarrow> pyfloat \<Rightarrow> pyfloat" where
  "float_mul (Finite x) (Finite y) = double_of (x * y)"
| "float_mul NaN b = NaN"
| "float_mul a NaN = NaN"
| "float_mul PosInf (Finite y) = (if y = 0 then NaN else if 0 < y then PosInf else NegInf)"
| "float_mul NegInf (Finite y) = (if y = 0 then NaN else if 0 < y then NegInf else PosInf)"
| "float_mul (Finite x) PosInf = (if x = 0 then NaN else if 0 < x then PosInf else NegInf)"
| "float_mul (Finite x) NegInf = (if x = 0 then NaN else if 0 < x then NegInf else PosInf)"
| "float_mul PosInf PosInf = PosInf"
| "float_mul NegInf NegInf = PosInf"
| "float_mul PosInf NegInf = NegInf"
| "float_mul NegInf PosInf = NegInf"

text \<open>
  Float division \<open>a / b\<close>: a zero divisor raises whatever the dividend is; otherwise the
  quotient is rounded, and may overflow to an infinity without raising.
\<close>

fun float_div :: "pyfloat \<Rightarrow> pyfloat \<Rightarrow> error + pyfloat" where
  "float_div a (Finite y) =
     (if y = 0 then Inl ZeroDivisionError
      else (case a of
              Finite x \<Rightarrow> Inr (double_of (x / y))
            | PosInf \<Rightarrow> Inr (if 0 < y then PosInf else NegInf)
            | NegInf \<Rightarrow> Inr (if 0 < y then NegInf else PosInf)
            | NaN \<Rightarrow> Inr NaN))"
| "float_div a NaN = Inr NaN"
| "float_div (Finite x) b = Inr (Finite 0)"
| "float_div NaN b = Inr NaN"
| "float_div a b = Inr NaN"

text \<open>
  \<open>int(x)\<close> of a float truncates toward zero; an infinity raises \<open>OverflowError\<close> and a
  NaN raises \<open>ValueError\<close>.
\<close>

fun py_int :: "pyfloat \<Rightarrow> error + int" where
  "py_int (Finite x) = Inr (if 0 \<le> x then \<lfloor>x\<rfloor> else \<lceil>x\<rceil>)"
| "py_int PosInf = Inl OverflowError"
| "py_int NegInf = Inl OverflowError"
| "py_int NaN = Inl ValueError"

subsection \<open>The fields of the class, as set by create\<close>

datatype up_axis = UpX | UpY | UpZ

record RigidBodyRopes =
  payloadRadius :: real
  payloadHight :: real
  payloadMass :: real
  initLoadHeight :: real
  payloadPos :: vec3
  linkHalfLength :: real
  linkRadius :: real
  ropeLength :: real
  numRopes :: int
  ropeSpacing :: real
  coneAngleLimit :: real
  slideLimit :: real
  slideMaxforceLimit :: real
  slide_stiffness :: real
  slide_damping :: real
  slide_stiffness_limit :: real
  slide_damping_limit :: real
  scaleFactor :: real
  tableThickness :: real
  boxSize :: real
  tableHeight :: real
  floorOffset :: real
  tableSurfaceDim :: "real \<times> real"
  orientation :: "nat list"

text \<open>
  Lines 60 to 117 of \<open>create\<close>. The stage enters through its metres per unit and its up
  axis. The caller has checked that \<open>metersPerUnit * 100\<close> is not zero.
\<close>

definition create_self ::
  "real \<Rightarrow> up_axis \<Rightarrow> int \<Rightarrow> real \<Rightarrow> real \<Rightarrow> real \<Rightarrow> RigidBodyRopes" where
  "create_self metersPerUnit upAxis num_ropes rope_length payload_mass load_height =
     (let pRadius = 24 / 100;
          pHight = pRadius / 4;
          sFactor = 1 / (metersPerUnit * 100);
          tThickness = 6;
          tHeight = load_height + pHight / 2 + rope_length + tThickness * sFactor;
          sStiffness = 10 ^ 5;
          sDamping = 10 ^ 3
      in \<lparr> payloadRadius = pRadius,
           payloadHight = pHight,
           payloadMass = payload_mass,
           initLoadHeight = load_height,
           payloadPos = (0, 0, load_height),
           linkHalfLength = 6 / 100,
           linkRadius = 2 / 100,
           ropeLength = rope_length,
           numRopes = num_ropes,
           ropeSpacing = 15,
           coneAngleLimit = 160,
           slideLimit = 1 / 10,
           slideMaxforceLimit = 10 * payload_mass * (981 / 100),
           slide_stiffness = sStiffness,
           slide_damping = sDamping,
           slide_stiffness_limit = 11 * sStiffness,
           slide_damping_limit = sDamping,
           scaleFactor = sFactor,
           tableThickness = tThickness,
           boxSize = 12,
           tableHeight = tHeight,
           floorOffset = 0 - tHeight,
           tableSurfaceDim = (200, 100),
           orientation = (case upAxis of UpZ \<Rightarrow> [0, 1, 2] | UpY \<Rightarrow> [1, 2, 0] | UpX \<Rightarrow> [2, 1, 0]) \<rparr>)"

subsection \<open>Joint prims\<close>

text \<open>
  A D6 joint prim is what the three schema families have written on it, in the order of
  the \<open>Apply\<close> calls: \<open>UsdPhysics.LimitAPI\<close> (an attribute that was never created is
  \<open>None\<close>), \<open>PhysxSchema.PhysxLimitAPI\<close> and \<open>UsdPhysics.DriveAPI\<close>.
\<close>

record limitAPI =
  lim_dof :: string
  lim_low :: "real option"
  lim_high :: "real option"

record physxLimitAPI =
  plx_dof :: string
  plx_stiffness :: real
  plx_damping :: real
  plx_contactDistance :: real

record driveAPI =
  drv_dof :: string
  drv_type :: string
  drv_maxForce :: real
  drv_damping :: real
  drv_stiffness :: real

record joint_prim =
  limits :: "limitAPI list"
  physxLimits :: "physxLimitAPI list"
  drives :: "driveAPI list"

text \<open>
  \<open>_createCableJoint(jointPath, axis="Z")\<close>. The slide DOF is a one element tuple in the
  source (\<open>"transZ",\<close>), so its loop runs once. Every axis other than Z and X takes the
  last branch.
\<close>

definition createCableJoint :: "RigidBodyRopes \<Rightarrow> string \<Rightarrow> joint_prim" where
  "createCableJoint self axis =
     (case (if axis = ''Z'' then
              ([''transZ''], [''transX'', ''transY''], [''rotX'', ''rotY'', ''rotZ''])
            else if axis = ''X'' then
              ([''transX''], [''transY'', ''transZ''], [''rotY'', ''rotZ'', ''rotX''])
            else
              ([''transY''], [''transX'', ''transZ''], [''rotX'', ''rotZ'', ''rotY'']))
      of (slideDOF, lockedDOFs, rotatedDOFs) \<Rightarrow>
        \<lparr> limits =
            map (\<lambda>prim. \<lparr> lim_dof = prim, lim_low = Some (- 1), lim_high = Some (1 / 100) \<rparr>) slideDOF
            @ map (\<lambda>a. \<lparr> lim_dof = a, lim_low = Some 0, lim_high = Some 0 \<rparr>) lockedDOFs
            @ map (\<lambda>d. \<lparr> lim_dof = d, lim_low = None, lim_high = None \<rparr>) rotatedDOFs,
          physxLimits =
            map (\<lambda>prim. \<lparr> plx_dof = prim,
                          plx_stiffness = slide_stiffness_limit self,
                          plx_damping = slide_damping_limit self,
                          plx_contactDistance = 1 / 10000 \<rparr>) slideDOF,
          drives =
            map (\<lambda>prim. \<lparr> drv_dof = prim,
                          drv_type = ''force'',
                          drv_maxForce = slideMaxforceLimit self,
                          drv_damping = slide_damping self,
                          drv_stiffness = slide_stiffness self \<rparr>) slideDOF \<rparr>)"

text \<open>\<open>_createFixJoint\<close>: all six DOFs with low 1 and high -1.\<close>

definition createFixJoint :: "RigidBodyRopes \<Rightarrow> joint_prim" where
  "createFixJoint self =
     \<lparr> limits =
         map (\<lambda>a. \<lparr> lim_dof = a, lim_low = Some 1, lim_high = Some (- 1) \<rparr>)
           [''transX'', ''transY'', ''transZ'', ''rotX'', ''rotY'', ''rotZ''],
       physxLimits = [],
       drives = [] \<rparr>"

text \<open>\<open>_createUniJoint\<close>: the locked list and the cone list are fixed in the source.\<close>

definition createUniJoint :: "RigidBodyRopes \<Rightarrow> joint_prim" where
  "createUniJoint self =
     \<lparr> limits =
         map (\<lambda>a. \<lparr> lim_dof = a, lim_low = Some 0, lim_high = Some 0 \<rparr>)
           [''transX'', ''transY'', ''transZ'', ''rotZ'']
         @ map (\<lambda>a. \<lparr> lim_dof = a,
                       lim_low = Some (- coneAngleLimit self),
                       lim_high = Some (coneAngleLimit self) \<rparr>)
           [''rotX'', ''rotY''],
       physxLimits = [],
       drives = [] \<rparr>"

text \<open>The limit written on one DOF of a joint prim: (low, high), if the API was applied.\<close>

definition limit_of :: "joint_prim \<Rightarrow> string \<Rightarrow> (real option \<times> real option) option" where
  "limit_of j d = map_of (map (\<lambda>l. (lim_dof l, (lim_low l, lim_high l))) (limits j)) d"

subsection \<open>Prims written to the stage\<close>

text \<open>The prim a joint instancer's body relationship points at.\<close>

datatype body_target = PayloadPath | TableTopPath | InstancerPath int | BoxPath int

text \<open>
  A \<open>PhysxPhysicsJointInstancer\<close>: its prototype joint, the two body relationships and
  the parallel arrays of its attributes.
\<close>

record joint_instancer =
  physicsPrototype :: joint_prim
  physicsBody0s :: body_target
  physicsBody1s :: body_target
  physicsProtoIndices :: "int list"
  physicsBody0Indices :: "int list"
  physicsBody1Indices :: "int list"
  physicsLocalPos0s :: "vec3 list"
  physicsLocalPos1s :: "vec3 list"
  physicsLocalRot0s :: "quat list"
  physicsLocalRot1s :: "quat list"

text \<open>
  \<open>Payload\<close>: translation, radius, height, mass. \<open>Box\<close>: the path it is created
  at (the table top, or the box of one rope), translation, orientation, scale. \<open>Capsule\<close>: rope index and axis of the link prototype.
  \<open>RigidBodyInstancer\<close>: rope index, prototype indices, positions, orientations of the
  links. \<open>JointInstancer\<close>: rope index, name of the instancer prim under the rope's scope,
  and the instancer.
\<close>

datatype prim =
    Payload vec3 real real real
  | Box body_target vec3 quat vec3
  | Capsule int string
  | RigidBodyInstancer int "int list" "vec3 list" "quat list"
  | JointInstancer int string joint_instancer

type_synonym stage = "prim list"

subsection \<open>Scene objects and helpers\<close>

definition createPayload :: "RigidBodyRopes \<Rightarrow> stage" where
  "createPayload self =
     [Payload (payloadPos self) (payloadRadius self) (payloadHight self) (payloadMass self)]"

definition orient_dim :: "RigidBodyRopes \<Rightarrow> vec3 \<Rightarrow> vec3" where
  "orient_dim self vec =
     (vnth vec (orientation self ! 0) * scaleFactor self,
      vnth vec (orientation self ! 1) * scaleFactor self,
      vnth vec (orientation self ! 2) * scaleFactor self)"

text \<open>\<open>create_box\<close>, called without a position modifier everywhere in the source.\<close>

definition create_box :: "RigidBodyRopes \<Rightarrow> body_target \<Rightarrow> vec3 \<Rightarrow> vec3 \<Rightarrow> quat \<Rightarrow> stage" where
  "create_box self boxActorPath dimensions position orient =
     [Box boxActorPath position orient (orient_dim self dimensions)]"

definition create_table :: "RigidBodyRopes \<Rightarrow> stage" where
  "create_table self =
     (let tableDim = (fst (tableSurfaceDim self), snd (tableSurfaceDim self), tableHeight self)
      in create_box self TableTopPath
           (fst tableDim, fst (snd tableDim), tableThickness self)
           (0, 0, snd (snd tableDim) - tableThickness self * scaleFactor self * (1 / 2))
           quat_identity)"

text \<open>\<open>calculate_orientation(angle, axis)\<close>: the quaternion of a rotation about an axis.\<close>

definition calculate_orientation :: "real \<Rightarrow> vec3 \<Rightarrow> quat" where
  "calculate_orientation angle axis =
     (let half_angle = angle / 2;
          sin_half_angle = sin half_angle;
          cos_half_angle = cos half_angle;
          axis' = GetNormalized axis
      in (cos_half_angle,
          vnth axis' 0 * sin_half_angle,
          vnth axis' 1 * sin_half_angle,
          vnth axis' 2 * sin_half_angle))"

subsection \<open>Quantities shared by the two rope builders\<close>

text \<open>
  The link pitch \<open>linkLength = self._linkHalfLength + 2 * self._linkRadius\<close>, as the real
  number that the positions and anchors are computed from.
\<close>

definition linkLength :: "RigidBodyRopes \<Rightarrow> real" where
  "linkLength self = linkHalfLength self + 2 * linkRadius self"

text \<open>
  The same expression as Python evaluates it: the two fields hold the binary64 values
  of their literals, the integer 2 becomes a float, and the product and the sum are
  rounded.
\<close>

definition linkLength_double :: "RigidBodyRopes \<Rightarrow> pyfloat" where
  "linkLength_double self =
     float_add (double_of (linkHalfLength self))
       (float_mul (double_of 2) (double_of (linkRadius self)))"

text \<open>
  \<open>int(self._ropeLength / linkLength)\<close>. The rope length is the float the caller passes;
  a real number that is not a binary64 value stands for the float nearest to it, the value
  of its literal.
\<close>

definition compute_numLinks :: "RigidBodyRopes \<Rightarrow> error + int" where
  "compute_numLinks self =
     (case float_div (double_of (ropeLength self)) (linkLength_double self) of
        Inl e \<Rightarrow> Inl e
      | Inr q \<Rightarrow> py_int q)"

text \<open>
  The local \<open>numLinks\<close> of the two builders. When the line that computes it raises, the
  builders stop there (see \<open>createVerticalRopes\<close> and \<open>createMultiRopes\<close>) and the
  value is never read.
\<close>

definition numLinks :: "RigidBodyRopes \<Rightarrow> int" where
  "numLinks self = (case compute_numLinks self of Inr k \<Rightarrow> k | Inl e \<Rightarrow> 0)"

definition payloadHightHalf :: "RigidBodyRopes \<Rightarrow> real" where
  "payloadHightHalf self = payloadHight self * (1 / 2)"

definition capsuleHalf :: "RigidBodyRopes \<Rightarrow> real" where
  "capsuleHalf self = linkLength self * (1 / 2)"

text \<open>
  A loop over the ropes runs the body for each rope index in turn and stops at the
  first one that raises, keeping what was written until then.
\<close>

fun run_ropes :: "(int \<Rightarrow> stage \<times> error option) \<Rightarrow> int list \<Rightarrow> stage \<times> error option" where
  "run_ropes body [] = ([], None)"
| "run_ropes body (i # rest) =
     (case body i of
        (ps, Some e) \<Rightarrow> (ps, Some e)
      | (ps, None) \<Rightarrow> (case run_ropes body rest of (qs, r) \<Rightarrow> (ps @ qs, r)))"

subsection \<open>The vertical layout: \<open>_createVerticalRopes\<close>\<close>

definition yStart :: "RigidBodyRopes \<Rightarrow> real" where
  "yStart self = - real_of_int (numRopes self div 2) * ropeSpacing self"

definition zStart :: "RigidBodyRopes \<Rightarrow> real" where
  "zStart self = initLoadHeight self + payloadHightHalf self + capsuleHalf self"

text \<open>Steps 1 and 2: the links of one rope.\<close>

definition vertical_positions :: "RigidBodyRopes \<Rightarrow> int \<Rightarrow> vec3 list" where
  "vertical_positions self ropeInd =
     (let yPos = yStart self + real_of_int ropeInd * ropeSpacing self
      in map (\<lambda>linkInd. (0, yPos, zStart self + real_of_int linkInd * linkLength self))
           (py_range (numLinks self)))"

definition vertical_rigidBodyInstancer :: "RigidBodyRopes \<Rightarrow> int \<Rightarrow> prim" where
  "vertical_rigidBodyInstancer self ropeInd =
     RigidBodyInstancer ropeInd
       (map (\<lambda>linkInd. 0) (py_range (numLinks self)))
       (vertical_positions self ropeInd)
       (map (\<lambda>linkInd. (1, 0, 0, 0)) (py_range (numLinks self)))"

text \<open>Step 3: the link to link joints.\<close>

definition vertical_jointInstancer :: "RigidBodyRopes \<Rightarrow> int \<Rightarrow> joint_instancer" where
  "vertical_jointInstancer self ropeInd =
     (let links = py_range (numLinks self - 1)
      in \<lparr> physicsPrototype = createCableJoint self ''Z'',
           physicsBody0s = InstancerPath ropeInd,
           physicsBody1s = InstancerPath ropeInd,
           physicsProtoIndices = map (\<lambda>linkInd. 0) links,
           physicsBody0Indices = map (\<lambda>linkInd. linkInd) links,
           physicsBody1Indices = map (\<lambda>linkInd. linkInd + 1) links,
           physicsLocalPos0s = map (\<lambda>linkInd. (0, 0, capsuleHalf self)) links,
           physicsLocalPos1s = map (\<lambda>linkInd. (0, 0, - capsuleHalf self)) links,
           physicsLocalRot0s = map (\<lambda>linkInd. (1, 0, 0, 0)) links,
           physicsLocalRot1s = map (\<lambda>linkInd. (1, 0, 0, 0)) links \<rparr>)"

text \<open>Step 4: the joint between the payload and the first link.\<close>

definition vertical_payloadAttachInstancer :: "RigidBodyRopes \<Rightarrow> int \<Rightarrow> joint_instancer" where
  "vertical_payloadAttachInstancer self ropeInd =
     \<lparr> physicsPrototype = createCableJoint self ''Z'',
       physicsBody0s = PayloadPath,
       physicsBody1s = InstancerPath ropeInd,
       physicsProtoIndices = [0],
       physicsBody0Indices = [0],
       physicsBody1Indices = [0],
       physicsLocalPos0s = [(0, 0, payloadHightHalf self)],
       physicsLocalPos1s = [(0, 0, - capsuleHalf self)],
       physicsLocalRot0s = [quat_identity],
       physicsLocalRot1s = [quat_identity] \<rparr>"

text \<open>Step 5: the joint between the last link and the table.\<close>

definition vertical_tableAttachInstancer :: "RigidBodyRopes \<Rightarrow> int \<Rightarrow> joint_instancer" where
  "vertical_tableAttachInstancer self ropeInd =
     \<lparr> physicsPrototype = createUniJoint self,
       physicsBody0s = InstancerPath ropeInd,
       physicsBody1s = TableTopPath,
       physicsProtoIndices = [0],
       physicsBody0Indices = [numLinks self - 1],
       physicsBody1Indices = [0],
       physicsLocalPos0s = [(0, 0, capsuleHalf self)],
       physicsLocalPos1s = [(0, 0, - tableThickness self * scaleFactor self * (1 / 2))],
       physicsLocalRot0s = [quat_identity],
       physicsLocalRot1s = [quat_identity] \<rparr>"

text \<open>The body of the loop over the ropes. Nothing in it can raise.\<close>

definition vertical_rope :: "RigidBodyRopes \<Rightarrow> int \<Rightarrow> stage \<times> error option" where
  "vertical_rope self ropeInd =
     ([Capsule ropeInd ''Z'',
       vertical_rigidBodyInstancer self ropeInd,
       JointInstancer ropeInd ''jointInstancer'' (vertical_jointInstancer self ropeInd),
       JointInstancer ropeInd ''ropePayloadCon'' (vertical_payloadAttachInstancer self ropeInd),
       JointInstancer ropeInd ''ropeTableCon'' (vertical_tableAttachInstancer self ropeInd)],
      None)"

definition createVerticalRopes :: "RigidBodyRopes \<Rightarrow> stage \<times> error option" where
  "createVerticalRopes self =
     (case compute_numLinks self of
        Inl e \<Rightarrow> ([], Some e)
      | Inr k \<Rightarrow> run_ropes (vertical_rope self) (py_range (numRopes self)))"

subsection \<open>The radial layout: \<open>_createMultiRopes\<close>\<close>

definition angle_increment :: "RigidBodyRopes \<Rightarrow> real" where
  "angle_increment self = 2 * pi / real_of_int (numRopes self)"

definition rope_angle :: "RigidBodyRopes \<Rightarrow> int \<Rightarrow> real" where
  "rope_angle self ropeInd = angle_increment self * real_of_int ropeInd"

text \<open>The position of the first link of a rope (\<open>xstartPos\<close>, \<open>ystartPos\<close>, \<open>zstartPos\<close>).\<close>

definition startPos :: "RigidBodyRopes \<Rightarrow> real \<Rightarrow> int \<Rightarrow> vec3" where
  "startPos self elevation_angle ropeInd =
     (let cos_elevation = cos elevation_angle;
          sin_elevation = sin elevation_angle;
          angle = rope_angle self ropeInd
      in ((payloadRadius self + capsuleHalf self * cos_elevation) * cos angle,
          (payloadRadius self + capsuleHalf self * cos_elevation) * sin angle,
          initLoadHeight self + capsuleHalf self * sin_elevation))"

text \<open>The orientation of a rope: \<open>q_z * q_y\<close>.\<close>

definition rope_orientation :: "RigidBodyRopes \<Rightarrow> real \<Rightarrow> int \<Rightarrow> quat" where
  "rope_orientation self elevation_angle ropeInd =
     (let q_z = calculate_orientation (rope_angle self ropeInd) (0, 0, 1);
          q_y = calculate_orientation elevation_angle (0, - 1, 0)
      in quat_mul q_z q_y)"

text \<open>The position of link \<open>linkInd\<close> (\<open>x\<close>, \<open>y\<close>, \<open>z\<close> in the loop over the links).\<close>

definition link_position :: "RigidBodyRopes \<Rightarrow> real \<Rightarrow> int \<Rightarrow> int \<Rightarrow> vec3" where
  "link_position self elevation_angle ropeInd linkInd =
     (let cos_elevation = cos elevation_angle;
          sin_elevation = sin elevation_angle;
          angle = rope_angle self ropeInd
      in case startPos self elevation_angle ropeInd of (xstartPos, ystartPos, zstartPos) \<Rightarrow>
           (xstartPos + real_of_int linkInd * linkLength self * cos angle * cos_elevation,
            ystartPos + real_of_int linkInd * linkLength self * sin angle * cos_elevation,
            zstartPos + real_of_int linkInd * linkLength self * sin_elevation))"

definition multi_rigidBodyInstancer :: "RigidBodyRopes \<Rightarrow> real \<Rightarrow> int \<Rightarrow> prim" where
  "multi_rigidBodyInstancer self elevation_angle ropeInd =
     RigidBodyInstancer ropeInd
       (map (\<lambda>linkInd. 0) (py_range (numLinks self)))
       (map (link_position self elevation_angle ropeInd) (py_range (numLinks self)))
       (map (\<lambda>linkInd. rope_orientation self elevation_angle ropeInd) (py_range (numLinks self)))"

definition multi_jointInstancer :: "RigidBodyRopes \<Rightarrow> int \<Rightarrow> joint_instancer" where
  "multi_jointInstancer self ropeInd =
     (let links = py_range (numLinks self - 1)
      in \<lparr> physicsPrototype = createCableJoint self ''X'',
           physicsBody0s = InstancerPath ropeInd,
           physicsBody1s = InstancerPath ropeInd,
           physicsProtoIndices = map (\<lambda>linkInd. 0) links,
           physicsBody0Indices = map (\<lambda>linkInd. linkInd) links,
           physicsBody1Indices = map (\<lambda>linkInd. linkInd + 1) links,
           physicsLocalPos0s = map (\<lambda>linkInd. (capsuleHalf self, 0, 0)) links,
           physicsLocalPos1s = map (\<lambda>linkInd. (- capsuleHalf self, 0, 0)) links,
           physicsLocalRot0s = map (\<lambda>linkInd. (1, 0, 0, 0)) links,
           physicsLocalRot1s = map (\<lambda>linkInd. (1, 0, 0, 0)) links \<rparr>)"

text \<open>The payload joint is created with the default axis of \<open>_createCableJoint\<close>.\<close>

definition multi_payloadAttachInstancer :: "RigidBodyRopes \<Rightarrow> real \<Rightarrow> int \<Rightarrow> joint_instancer" where
  "multi_payloadAttachInstancer self elevation_angle ropeInd =
     (let angle = rope_angle self ropeInd
      in \<lparr> physicsPrototype = createCableJoint self ''Z'',
           physicsBody0s = PayloadPath,
           physicsBody1s = InstancerPath ropeInd,
           physicsProtoIndices = [0],
           physicsBody0Indices = [0],
           physicsBody1Indices = [0],
           physicsLocalPos0s = [(payloadRadius self * cos angle, payloadRadius self * sin angle, 0)],
           physicsLocalPos1s = [(- capsuleHalf self, 0, 0)],
           physicsLocalRot0s = [rope_orientation self elevation_angle ropeInd],
           physicsLocalRot1s = [quat_identity] \<rparr>)"

text \<open>
  The box at the far end of the rope, placed from the position \<open>(x, y, z)\<close> that the loop
  over the links left behind: the position of the last link.
\<close>

definition multi_box :: "RigidBodyRopes \<Rightarrow> real \<Rightarrow> int \<Rightarrow> stage" where
  "multi_box self elevation_angle ropeInd =
     (let cos_elevation = cos elevation_angle;
          sin_elevation = sin elevation_angle;
          angle = rope_angle self ropeInd;
          reach = capsuleHalf self + boxSize self * scaleFactor self * (1 / 2)
      in case link_position self elevation_angle ropeInd (numLinks self - 1) of (x, y, z) \<Rightarrow>
           create_box self (BoxPath ropeInd)
             (boxSize self, boxSize self, boxSize self)
             (x + reach * cos angle * cos_elevation,
              y + reach * sin angle * cos_elevation,
              z + reach * sin_elevation)
             (rope_orientation self elevation_angle ropeInd))"

definition multi_boxAttachInstancer :: "RigidBodyRopes \<Rightarrow> int \<Rightarrow> joint_instancer" where
  "multi_boxAttachInstancer self ropeInd =
     \<lparr> physicsPrototype = createUniJoint self,
       physicsBody0s = InstancerPath ropeInd,
       physicsBody1s = BoxPath ropeInd,
       physicsProtoIndices = [0],
       physicsBody0Indices = [numLinks self - 1],
       physicsBody1Indices = [0],
       physicsLocalPos0s = [(capsuleHalf self, 0, 0)],
       physicsLocalPos1s = [(- boxSize self * scaleFactor self * (1 / 2), 0, 0)],
       physicsLocalRot0s = [quat_identity],
       physicsLocalRot1s = [quat_identity] \<rparr>"

text \<open>
  The body of the loop over the ropes. With no link the loop over the links never binds
  \<open>x\<close>, \<open>y\<close> and \<open>z\<close>, and the arguments of \<open>create_box\<close> raise after the links, the chain
  joints and the payload joint of this rope have been written.
\<close>

definition multi_rope :: "RigidBodyRopes \<Rightarrow> real \<Rightarrow> int \<Rightarrow> stage \<times> error option" where
  "multi_rope self elevation_angle ropeInd =
     (let written =
            [Capsule ropeInd ''X'',
             multi_rigidBodyInstancer self elevation_angle ropeInd,
             JointInstancer ropeInd ''jointInstancer'' (multi_jointInstancer self ropeInd),
             JointInstancer ropeInd ''ropePayloadCon''
               (multi_payloadAttachInstancer self elevation_angle ropeInd)]
      in if numLinks self \<le> 0 then (written, Some UnboundLocalError)
         else (written @ multi_box self elevation_angle ropeInd
                 @ [JointInstancer ropeInd ''ropeBoxCon'' (multi_boxAttachInstancer self ropeInd)],
               None))"

definition createMultiRopes :: "RigidBodyRopes \<Rightarrow> real \<Rightarrow> stage \<times> error option" where
  "createMultiRopes self elevation_angle =
     (case compute_numLinks self of
        Inl e \<Rightarrow> ([], Some e)
      | Inr k \<Rightarrow>
          if numRopes self = 0 then ([], Some ZeroDivisionError)
          else run_ropes (multi_rope self elevation_angle) (py_range (numRopes self)))"

subsection \<open>The entry point\<close>

text \<open>
  \<open>create(stage, num_ropes, rope_length, payload_mass, load_height, elevation_angle)\<close>.
  The scale factor divides by the stage's metres per unit times 100 before anything is
  written.
\<close>

definition create ::
  "real \<Rightarrow> up_axis \<Rightarrow> int \<Rightarrow> real \<Rightarrow> real \<Rightarrow> real \<Rightarrow> real \<Rightarrow> stage \<times> error option" where
  "create metersPerUnit upAxis num_ropes rope_length payload_mass load_height elevation_angle =
     (if metersPerUnit * 100 = 0 then ([], Some ZeroDivisionError)
      else
        (let self = create_self metersPerUnit upAxis num_ropes rope_length payload_mass load_height
         in if num_ropes < 2 then
              (case createVerticalRopes self of
                 (ps, r) \<Rightarrow> (createPayload self @ create_table self @ ps, r))
            else
              (case createMultiRopes self elevation_angle of
                 (ps, r) \<Rightarrow> (createPayload self @ ps, r))))"

subsection \<open>Reading the stage\<close>

text \<open>The joint instancers on a stage, in the order written: rope index, name, instancer.\<close>

fun joint_instancers :: "stage \<Rightarrow> (int \<times> string \<times> joint_instancer) list" where
  "joint_instancers [] = []"
| "joint_instancers (JointInstancer r nm ji # ps) = (r, nm, ji) # joint_instancers ps"
| "joint_instancers (p # ps) = joint_instancers ps"

text \<open>
  The body indices of an instancer that point into a rope's link collection (a body
  relationship that targets the rigid body instancer) lie in \<open>[0, nl)\<close>.
\<close>

fun indices_ok :: "int \<Rightarrow> body_target \<Rightarrow> int list \<Rightarrow> bool" where
  "indices_ok nl (InstancerPath r) is = list_all (\<lambda>i. 0 \<le> i \<and> i < nl) is"
| "indices_ok nl t is = True"

definition link_indices_in_range :: "int \<Rightarrow> joint_instancer \<Rightarrow> bool" where
  "link_indices_in_range nl ji =
     (indices_ok nl (physicsBody0s ji) (physicsBody0Indices ji)
      \<and> indices_ok nl (physicsBody1s ji) (physicsBody1Indices ji))"

text \<open>Every joint instancer on the stage keeps its link indices in range.\<close>

fun stage_indices_in_range :: "int \<Rightarrow> stage \<Rightarrow> bool" where
  "stage_indices_in_range nl [] = True"
| "stage_indices_in_range nl (JointInstancer r nm ji # ps) =
     (link_indices_in_range nl ji \<and> stage_indices_in_range nl ps)"
| "stage_indices_in_range nl (p # ps) = stage_indices_in_range nl ps"

text \<open>The lengths of the seven parallel arrays of a joint instancer.\<close>

definition array_lengths :: "joint_instancer \<Rightarrow> nat list" where
  "array_lengths ji =
     [length (physicsProtoIndices ji),
      length (physicsBody0Indices ji), length (physicsBody1Indices ji),
      length (physicsLocalPos0s ji), length (physicsLocalPos1s ji),
      length (physicsLocalRot0s ji), length (physicsLocalRot1s ji)]"

text \<open>
  The spring and damper numbers of a joint prim, without the names of the DOFs they sit
  on: stiffness, damping and contact distance of each limit, and type, force cap, damping
  and stiffness of each drive.
\<close>

definition numeric_policy ::
  "joint_prim \<Rightarrow> (real \<times> real \<times> real) list \<times> (string \<times> real \<times> real \<times> real) list" where
  "numeric_policy j =
     (map (\<lambda>p. (plx_stiffness p, plx_damping p, plx_contactDistance p)) (physxLimits j),
      map (\<lambda>d. (drv_type d, drv_maxForce d, drv_damping d, drv_stiffness d)) (drives j))"

text \<open>
  Which joint function made the prototype of a joint instancer, by the instancer's name:
  the payload joint comes from \<open>_createCableJoint\<close> with its default axis, the table and
  box joints from \<open>_createUniJoint\<close>, the chain joints from \<open>_createCableJoint\<close> with the
  axis of the layout. No other name occurs.
\<close>

definition attachment_archetype_ok :: "RigidBodyRopes \<Rightarrow> string \<times> joint_prim \<Rightarrow> bool" where
  "attachment_archetype_ok self x =
     (if fst x = ''ropePayloadCon'' then snd x = createCableJoint self ''Z''
      else if fst x = ''ropeTableCon'' \<or> fst x = ''ropeBoxCon'' then snd x = createUniJoint self
      else if fst x = ''jointInstancer'' then
        snd x = createCableJoint self (if numRopes self < 2 then ''Z'' else ''X'')
      else False)"

subsection \<open>Geometry used to state the layout properties\<close>

fun vadd :: "vec3 \<Rightarrow> vec3 \<Rightarrow> vec3" where
  "vadd (a1, a2, a3) (b1, b2, b3) = (a1 + b1, a2 + b2, a3 + b3)"

fun vscale :: "real \<Rightarrow> vec3 \<Rightarrow> vec3" where
  "vscale c (a1, a2, a3) = (c * a1, c * a2, c * a3)"

text \<open>
  The horizontal distance of a point from the vertical axis through a centre: the payload's
  central axis when the centre is the payload position.
\<close>

fun axis_distance :: "vec3 \<Rightarrow> vec3 \<Rightarrow> real" where
  "axis_distance (cx, cy, cz) (x, y, z) = sqrt ((x - cx)\<^sup>2 + (y - cy)\<^sup>2)"

text \<open>The positions and the orientations written on a rigid body instancer.\<close>

fun positions_of :: "prim \<Rightarrow> vec3 list" where
  "positions_of (RigidBodyInstancer r is ps os) = ps"
| "positions_of p = []"

fun orientations_of :: "prim \<Rightarrow> quat list" where
  "orientations_of (RigidBodyInstancer r is ps os) = os"
| "orientations_of p = []"

text \<open>
  The direction vector of an assembly as the specification writes it, from the azimuth
  and the elevation angle. The source never builds this vector; the link positions and
  the rotated forward axis are compared with it.
\<close>

definition spec_direction :: "real \<Rightarrow> real \<Rightarrow> vec3" where
  "spec_direction angle elevation_angle =
     (cos angle * cos elevation_angle, sin angle * cos elevation_angle, sin elevation_angle)"

section \<open>Properties\<close>

subsection \<open>Helper facts\<close>

lemma joint_instancers_append:
  "joint_instancers (ps @ qs) = joint_instancers ps @ joint_instancers qs"
  by (induction ps rule: joint_instancers.induct) simp_all

lemma joint_instancers_concat:
  "joint_instancers (concat pss) = concat (map joint_instancers pss)"
  by (induction pss) (simp_all add: joint_instancers_append)

lemma run_ropes_all_ok:
  "(\<And>i. i \<in> set is \<Longrightarrow> snd (body i) = None) \<Longrightarrow>
   run_ropes body is = (concat (map (\<lambda>i. fst (body i)) is), None)"
proof (induction "is")
  case Nil
  show ?case by simp
next
  case (Cons i rest)
  have a: "snd (body i) = None" using Cons.prems by simp
  have b: "run_ropes body rest = (concat (map (\<lambda>i. fst (body i)) rest), None)"
    using Cons by simp
  obtain ps where c: "body i = (ps, None)" using a by (cases "body i") simp
  show ?case using b c by simp
qed

lemma linkLength_create_self:
  "linkLength (create_self mpu up n L m h) = 1 / 10"
  by (simp add: linkLength_def create_self_def)

lemma pow2_powr: "pow2 k = 2 powr (of_int k)"
  by (simp add: pow2_def powr_real_of_int inverse_eq_divide)

lemma pow2_pos: "0 < pow2 k"
  by (simp add: pow2_powr)

lemma double_exponent_eval:
  assumes "pow2 e \<le> \<bar>x\<bar>" and "\<bar>x\<bar> < pow2 (e + 1)" and "- 1022 \<le> e"
  shows "double_exponent x = e"
proof -
  have pos: "0 < \<bar>x\<bar>" using assms(1) pow2_pos [of e] by linarith
  have "\<lfloor>log 2 \<bar>x\<bar>\<rfloor> = e"
    using assms(1,2) floor_log_eq_powr_iff [of "\<bar>x\<bar>" 2 e] pos
    by (simp add: pow2_powr)
  then show ?thesis using assms(3) by (simp add: double_exponent_def)
qed

text \<open>
  How a binary64 value is computed at a concrete input: give the binade, the rounded
  multiple of the spacing, and check that it is in range.
\<close>

lemma double_of_eval:
  assumes "pow2 e \<le> \<bar>x\<bar>" and "\<bar>x\<bar> < pow2 (e + 1)" and "- 1022 \<le> e"
    and "round_half_even (x / pow2 (e - 52)) = m"
    and "\<bar>of_int m * pow2 (e - 52)\<bar> < overflow_threshold"
  shows "double_of x = Finite (of_int m * pow2 (e - 52))"
proof -
  have nz: "x \<noteq> 0" using assms(1) pow2_pos [of e] by auto
  have ex: "double_exponent x = e" by (rule double_exponent_eval [OF assms(1-3)])
  have a: "\<not> overflow_threshold \<le> of_int m * pow2 (e - 52)"
    and b: "\<not> of_int m * pow2 (e - 52) \<le> - overflow_threshold"
    using assms(5) by linarith+
  show ?thesis
    using nz a b by (simp add: double_of_def ex assms(4) Let_def)
qed

lemma double_of_overflow:
  assumes "pow2 e \<le> \<bar>x\<bar>" and "\<bar>x\<bar> < pow2 (e + 1)" and "- 1022 \<le> e"
    and "round_half_even (x / pow2 (e - 52)) = m"
    and "overflow_threshold \<le> of_int m * pow2 (e - 52)"
  shows "double_of x = PosInf"
proof -
  have nz: "x \<noteq> 0" using assms(1) pow2_pos [of e] by auto
  have ex: "double_exponent x = e" by (rule double_exponent_eval [OF assms(1-3)])
  show ?thesis
    using nz assms(5) by (simp add: double_of_def ex assms(4) Let_def)
qed



lemma double_of_006: "double_of (6 / 100) = Finite (8646911284551352 / 2 ^ 57)"
proof -
  have "double_of (6 / 100) = Finite (of_int 8646911284551352 * pow2 (- 5 - 52))"
    by (rule double_of_eval) (simp_all add: pow2_def round_half_even_def overflow_threshold_def)
  then show ?thesis by (simp add: pow2_def)
qed

lemma double_of_002: "double_of (2 / 100) = Finite (5764607523034235 / 2 ^ 58)"
proof -
  have "double_of (2 / 100) = Finite (of_int 5764607523034235 * pow2 (- 6 - 52))"
    by (rule double_of_eval) (simp_all add: pow2_def round_half_even_def overflow_threshold_def)
  then show ?thesis by (simp add: pow2_def)
qed

lemma double_of_2: "double_of 2 = Finite 2"
proof -
  have "double_of 2 = Finite (of_int (2 ^ 52) * pow2 (1 - 52))"
    by (rule double_of_eval) (simp_all add: pow2_def round_half_even_def overflow_threshold_def)
  then show ?thesis by (simp add: pow2_def)
qed

lemma double_of_twice_002:
  "double_of (2 * (5764607523034235 / 2 ^ 58)) = Finite (5764607523034235 / 2 ^ 57)"
proof -
  have "double_of (2 * (5764607523034235 / 2 ^ 58))
          = Finite (of_int 5764607523034235 * pow2 (- 5 - 52))"
    by (rule double_of_eval) (simp_all add: pow2_def round_half_even_def overflow_threshold_def)
  then show ?thesis by (simp add: pow2_def)
qed

lemma double_of_pitch_sum:
  "double_of (8646911284551352 / 2 ^ 57 + 5764607523034235 / 2 ^ 57)
     = Finite (3602879701896397 / 2 ^ 55)"
proof -
  have "double_of (8646911284551352 / 2 ^ 57 + 5764607523034235 / 2 ^ 57)
     = Finite (of_int 7205759403792794 * pow2 (- 4 - 52))"
    by (rule double_of_eval) (simp_all add: pow2_def round_half_even_def overflow_threshold_def)
  then show ?thesis by (simp add: pow2_def)
qed

text \<open>The link pitch in binary64 is the float of the literal 0.1.\<close>

lemma linkLength_double_create_self:
  "linkLength_double (create_self mpu up n L m h) = Finite (3602879701896397 / 2 ^ 55)"
proof -
  have f: "linkHalfLength (create_self mpu up n L m h) = 6 / 100"
    "linkRadius (create_self mpu up n L m h) = 2 / 100"
    by (simp_all add: create_self_def)
  show ?thesis
    unfolding linkLength_double_def f double_of_006 double_of_002 double_of_2
      float_mul.simps float_add.simps double_of_twice_002 double_of_pitch_sum ..
qed

lemma compute_numLinks_create_self:
  "compute_numLinks (create_self mpu up n L m h) =
     (case float_div (double_of L) (Finite (3602879701896397 / 2 ^ 55)) of
        Inl e \<Rightarrow> Inl e
      | Inr q \<Rightarrow> py_int q)"
proof -
  have "ropeLength (create_self mpu up n L m h) = L" by (simp add: create_self_def)
  then show ?thesis
    by (simp only: compute_numLinks_def linkLength_double_create_self)
qed

lemma float_div_finite: "y \<noteq> 0 \<Longrightarrow> float_div (Finite x) (Finite y) = Inr (double_of (x / y))"
  by simp

lemma pitch_nonzero: "(3602879701896397 / 2 ^ 55 :: real) \<noteq> 0"
  by simp

lemma compute_numLinks_eval:
  assumes "double_of L = Finite x"
    and "double_of (x / (3602879701896397 / 2 ^ 55)) = Finite q" and "0 \<le> q"
  shows "compute_numLinks (create_self mpu up n L m h) = Inr \<lfloor>q\<rfloor>"
proof -
  have "float_div (double_of L) (Finite (3602879701896397 / 2 ^ 55)) = Inr (Finite q)"
    by (simp only: assms(1) float_div_finite [OF pitch_nonzero] assms(2))
  then show ?thesis
    by (simp only: compute_numLinks_create_self sum.case py_int.simps assms(3) if_True)
qed

lemma numLinks_of_compute: "compute_numLinks self = Inr k \<Longrightarrow> numLinks self = k"
  by (simp add: numLinks_def)

lemma compute_of_numLinks: "1 \<le> numLinks self \<Longrightarrow> compute_numLinks self = Inr (numLinks self)"
  by (cases "compute_numLinks self") (simp_all add: numLinks_def)

text \<open>
  The link count at the rope lengths used below. Length 1: the quotient rounds to 10.
  Length 0.05: the float of 0.05 is half the float of 0.1, the quotient is exactly 0.5.
  Length 0.3: the quotient rounds to 2.9999999999999996, so there are two links, not
  three. Length 1.7: the exact quotient of the two floats is below 17 and rounds to 17,
  so there are seventeen links. Length \<open>2 ^ 1023\<close>: the quotient overflows and \<open>int\<close>
  raises.
\<close>

lemma double_of_1: "double_of 1 = Finite 1"
proof -
  have "double_of 1 = Finite (of_int (2 ^ 52) * pow2 (0 - 52))"
    by (rule double_of_eval) (simp_all add: pow2_def round_half_even_def overflow_threshold_def)
  then show ?thesis by (simp add: pow2_def)
qed

lemma quotient_length_1: "double_of (1 / (3602879701896397 / 2 ^ 55)) = Finite 10"
proof -
  have "double_of (1 / (3602879701896397 / 2 ^ 55))
          = Finite (of_int 5629499534213120 * pow2 (3 - 52))"
    by (rule double_of_eval) (simp_all add: pow2_def round_half_even_def overflow_threshold_def)
  then show ?thesis by (simp add: pow2_def)
qed

lemma compute_numLinks_length_1: "compute_numLinks (create_self mpu up n 1 m h) = Inr 10"
  using compute_numLinks_eval [OF double_of_1 quotient_length_1, of mpu up n m h] by simp

lemma numLinks_length_1: "numLinks (create_self mpu up n 1 m h) = 10"
  by (rule numLinks_of_compute [OF compute_numLinks_length_1])

lemma double_of_005: "double_of (1 / 20) = Finite (3602879701896397 / 2 ^ 56)"
proof -
  have "double_of (1 / 20) = Finite (of_int 7205759403792794 * pow2 (- 5 - 52))"
    by (rule double_of_eval) (simp_all add: pow2_def round_half_even_def overflow_threshold_def)
  then show ?thesis by (simp add: pow2_def)
qed

lemma quotient_length_005:
  "double_of (3602879701896397 / 2 ^ 56 / (3602879701896397 / 2 ^ 55)) = Finite (1 / 2)"
proof -
  have "double_of (3602879701896397 / 2 ^ 56 / (3602879701896397 / 2 ^ 55))
          = Finite (of_int (2 ^ 52) * pow2 (- 1 - 52))"
    by (rule double_of_eval) (simp_all add: pow2_def round_half_even_def overflow_threshold_def)
  then show ?thesis by (simp add: pow2_def)
qed

lemma compute_numLinks_length_005:
  "compute_numLinks (create_self mpu up n (1 / 20) m h) = Inr 0"
  using compute_numLinks_eval [OF double_of_005 quotient_length_005, of mpu up n m h] by simp

lemma numLinks_length_005: "numLinks (create_self mpu up n (1 / 20) m h) = 0"
  by (rule numLinks_of_compute [OF compute_numLinks_length_005])

lemma double_of_03: "double_of (3 / 10) = Finite (5404319552844595 / 2 ^ 54)"
proof -
  have "double_of (3 / 10) = Finite (of_int 5404319552844595 * pow2 (- 2 - 52))"
    by (rule double_of_eval) (simp_all add: pow2_def round_half_even_def overflow_threshold_def)
  then show ?thesis by (simp add: pow2_def)
qed

lemma quotient_length_03:
  "double_of (5404319552844595 / 2 ^ 54 / (3602879701896397 / 2 ^ 55))
     = Finite (6755399441055743 / 2 ^ 51)"
proof -
  have "double_of (5404319552844595 / 2 ^ 54 / (3602879701896397 / 2 ^ 55))
          = Finite (of_int 6755399441055743 * pow2 (1 - 52))"
    by (rule double_of_eval) (simp_all add: pow2_def round_half_even_def overflow_threshold_def)
  then show ?thesis by (simp add: pow2_def)
qed

lemma compute_numLinks_length_03:
  "compute_numLinks (create_self mpu up n (3 / 10) m h) = Inr 2"
  using compute_numLinks_eval [OF double_of_03 quotient_length_03, of mpu up n m h] by simp

lemma double_of_17: "double_of (17 / 10) = Finite (7656119366529843 / 2 ^ 52)"
proof -
  have "double_of (17 / 10) = Finite (of_int 7656119366529843 * pow2 (0 - 52))"
    by (rule double_of_eval) (simp_all add: pow2_def round_half_even_def overflow_threshold_def)
  then show ?thesis by (simp add: pow2_def)
qed

lemma quotient_length_17:
  "double_of (7656119366529843 / 2 ^ 52 / (3602879701896397 / 2 ^ 55)) = Finite 17"
proof -
  have "double_of (7656119366529843 / 2 ^ 52 / (3602879701896397 / 2 ^ 55))
          = Finite (of_int 4785074604081152 * pow2 (4 - 52))"
    by (rule double_of_eval) (simp_all add: pow2_def round_half_even_def overflow_threshold_def)
  then show ?thesis by (simp add: pow2_def)
qed

lemma compute_numLinks_length_17:
  "compute_numLinks (create_self mpu up n (17 / 10) m h) = Inr 17"
  using compute_numLinks_eval [OF double_of_17 quotient_length_17, of mpu up n m h] by simp

lemma double_of_huge: "double_of (2 ^ 1023) = Finite (2 ^ 1023)"
proof -
  have "double_of (2 ^ 1023) = Finite (of_int (2 ^ 52) * pow2 (1023 - 52))"
    by (rule double_of_eval) (simp_all add: pow2_def round_half_even_def overflow_threshold_def)
  then show ?thesis by (simp add: pow2_def)
qed

lemma quotient_length_huge: "double_of (2 ^ 1023 / (3602879701896397 / 2 ^ 55)) = PosInf"
  by (rule double_of_overflow [where e = 1026 and m = 5629499534213120])
     (simp_all add: pow2_def round_half_even_def overflow_threshold_def)

lemma compute_numLinks_length_huge:
  "compute_numLinks (create_self mpu up n (2 ^ 1023) m h) = Inl OverflowError"
proof -
  have "float_div (double_of (2 ^ 1023)) (Finite (3602879701896397 / 2 ^ 55)) = Inr PosInf"
    by (simp only: double_of_huge float_div_finite [OF pitch_nonzero] quotient_length_huge)
  then show ?thesis
    by (simp only: compute_numLinks_create_self sum.case py_int.simps)
qed

lemma numRopes_create_self:
  "numRopes (create_self mpu up n L m h) = n"
  by (simp add: create_self_def)

lemma create_vertical:
  assumes "mpu * 100 \<noteq> 0" and "n < 2"
    and "compute_numLinks (create_self mpu up n L m h) = Inr k"
  shows "create mpu up n L m h e =
     (let self = create_self mpu up n L m h
      in (createPayload self @ create_table self
            @ concat (map (\<lambda>r. fst (vertical_rope self r)) (py_range n)), None))"
proof -
  let ?self = "create_self mpu up n L m h"
  have "run_ropes (vertical_rope ?self) (py_range n)
          = (concat (map (\<lambda>r. fst (vertical_rope ?self r)) (py_range n)), None)"
    by (rule run_ropes_all_ok) (simp add: vertical_rope_def)
  then show ?thesis
    using assms
    by (simp add: create_def Let_def createVerticalRopes_def numRopes_create_self)
qed

lemma create_multi:
  assumes "mpu * 100 \<noteq> 0" and "2 \<le> n" and "1 \<le> numLinks (create_self mpu up n L m h)"
  shows "create mpu up n L m h e =
     (let self = create_self mpu up n L m h
      in (createPayload self
            @ concat (map (\<lambda>r. fst (multi_rope self e r)) (py_range n)), None))"
proof -
  let ?self = "create_self mpu up n L m h"
  have "run_ropes (multi_rope ?self e) (py_range n)
          = (concat (map (\<lambda>r. fst (multi_rope ?self e r)) (py_range n)), None)"
    using assms(3) by (intro run_ropes_all_ok) (simp add: multi_rope_def Let_def)
  then show ?thesis
    using assms(1,2) compute_of_numLinks [OF assms(3)]
    by (simp add: create_def Let_def createMultiRopes_def numRopes_create_self)
qed

lemma stage_indices_in_range_append:
  "stage_indices_in_range nl (ps @ qs) =
     (stage_indices_in_range nl ps \<and> stage_indices_in_range nl qs)"
  by (induction nl ps rule: stage_indices_in_range.induct) simp_all

lemma stage_indices_in_range_concat:
  "stage_indices_in_range nl (concat pss) = list_all (stage_indices_in_range nl) pss"
  by (induction pss) (simp_all add: stage_indices_in_range_append)

lemma py_range_bounds: "i \<in> set (py_range k) \<Longrightarrow> 0 \<le> i \<and> i < k"
  by (auto simp add: py_range_def)

lemma length_py_range: "length (py_range k) = nat k"
  by (simp add: py_range_def)

lemma nth_py_range: "i < nat k \<Longrightarrow> py_range k ! i = int i"
  by (simp add: py_range_def)

lemma vertical_rope_indices:
  assumes "1 \<le> numLinks self"
  shows "stage_indices_in_range (numLinks self) (fst (vertical_rope self r))"
  using assms
  by (auto simp add: vertical_rope_def vertical_rigidBodyInstancer_def link_indices_in_range_def
      vertical_jointInstancer_def vertical_payloadAttachInstancer_def
      vertical_tableAttachInstancer_def list_all_iff Let_def dest: py_range_bounds)

lemma multi_rope_indices:
  assumes "1 \<le> numLinks self"
  shows "stage_indices_in_range (numLinks self) (fst (multi_rope self e r))"
  using assms
  by (auto simp add: multi_rope_def multi_rigidBodyInstancer_def link_indices_in_range_def
      multi_jointInstancer_def multi_payloadAttachInstancer_def multi_box_def create_box_def
      multi_boxAttachInstancer_def list_all_iff Let_def split: prod.splits dest: py_range_bounds)

lemma create_ok:
  assumes "mpu * 100 \<noteq> 0" and "1 \<le> numLinks (create_self mpu up n L m h)"
  shows "snd (create mpu up n L m h e) = None"
proof (cases "n < 2")
  case True
  show ?thesis
    by (simp add: create_vertical [OF assms(1) True compute_of_numLinks [OF assms(2)]] Let_def)
next
  case False
  then have "2 \<le> n" by simp
  then show ?thesis by (simp add: create_multi [OF assms(1) _ assms(2)] Let_def)
qed

lemma create_indices:
  assumes "mpu * 100 \<noteq> 0" and "1 \<le> numLinks (create_self mpu up n L m h)"
  shows "stage_indices_in_range (numLinks (create_self mpu up n L m h))
           (fst (create mpu up n L m h e))"
proof (cases "n < 2")
  case True
  show ?thesis
    using vertical_rope_indices [OF assms(2)]
    by (simp add: create_vertical [OF assms(1) True compute_of_numLinks [OF assms(2)]]
        Let_def stage_indices_in_range_append
        stage_indices_in_range_concat createPayload_def create_table_def create_box_def
        list_all_iff)
next
  case False
  then have n2: "2 \<le> n" by simp
  show ?thesis
    using multi_rope_indices [OF assms(2)]
    by (simp add: create_multi [OF assms(1) n2 assms(2)] Let_def stage_indices_in_range_append
        stage_indices_in_range_concat createPayload_def list_all_iff)
qed

lemma chain_indices:
  "physicsBody0Indices (vertical_jointInstancer self r) = py_range (numLinks self - 1)"
  "physicsBody1Indices (vertical_jointInstancer self r)
     = map (\<lambda>i. i + 1) (py_range (numLinks self - 1))"
  "physicsBody0Indices (multi_jointInstancer self r) = py_range (numLinks self - 1)"
  "physicsBody1Indices (multi_jointInstancer self r)
     = map (\<lambda>i. i + 1) (py_range (numLinks self - 1))"
  by (simp_all add: vertical_jointInstancer_def multi_jointInstancer_def Let_def)

lemma attach_indices:
  "physicsBody1Indices (vertical_payloadAttachInstancer self r) = [0]"
  "physicsBody0Indices (vertical_tableAttachInstancer self r) = [numLinks self - 1]"
  "physicsBody1Indices (multi_payloadAttachInstancer self e r) = [0]"
  "physicsBody0Indices (multi_boxAttachInstancer self r) = [numLinks self - 1]"
  by (simp_all add: vertical_payloadAttachInstancer_def vertical_tableAttachInstancer_def
      multi_payloadAttachInstancer_def multi_boxAttachInstancer_def Let_def)

subsection \<open>Body indices (C9)\<close>

text \<open>
  Claim C9, amended. For every input that \<open>create\<close> takes with at least one link per
  rope, the build returns without an error and every body index that refers to a rope's
  link collection lies in \<open>[0, numLinks)\<close>: the chain joints use the indices
  \<open>0 .. numLinks - 2\<close> and their successors, the payload joint uses link 0 and the
  anchor joint uses link \<open>numLinks - 1\<close>, in both layouts.
\<close>

theorem body_indices_in_range:
  assumes "mpu * 100 \<noteq> 0" and "1 \<le> numLinks (create_self mpu up n L m h)"
  shows "(let self = create_self mpu up n L m h in
      snd (create mpu up n L m h e) = None
    \<and> stage_indices_in_range (numLinks self) (fst (create mpu up n L m h e))
    \<and> (\<forall>r. physicsBody0Indices (vertical_jointInstancer self r) = py_range (numLinks self - 1)
          \<and> physicsBody1Indices (vertical_jointInstancer self r)
              = map (\<lambda>i. i + 1) (py_range (numLinks self - 1))
          \<and> physicsBody0Indices (multi_jointInstancer self r) = py_range (numLinks self - 1)
          \<and> physicsBody1Indices (multi_jointInstancer self r)
              = map (\<lambda>i. i + 1) (py_range (numLinks self - 1))
          \<and> physicsBody1Indices (vertical_payloadAttachInstancer self r) = [0]
          \<and> physicsBody0Indices (vertical_tableAttachInstancer self r) = [numLinks self - 1]
          \<and> physicsBody1Indices (multi_payloadAttachInstancer self e r) = [0]
          \<and> physicsBody0Indices (multi_boxAttachInstancer self r) = [numLinks self - 1]))"
  unfolding Let_def
  using create_ok [OF assms] create_indices [OF assms] chain_indices attach_indices
  by simp

lemma numLinks_ten: "numLinks (create_self (1 / 100) UpZ 1 1 1 2) = 10"
  by (rule numLinks_length_1)

text \<open>Witness for C9: one vertical rope of ten links.\<close>

theorem body_indices_in_range_witness:
  "(1 / 100 :: real) * 100 \<noteq> 0
   \<and> 1 \<le> numLinks (create_self (1 / 100) UpZ 1 1 1 2)
   \<and> snd (create (1 / 100) UpZ 1 1 1 2 0) = None
   \<and> stage_indices_in_range 10 (fst (create (1 / 100) UpZ 1 1 1 2 0))
   \<and> physicsBody0Indices (vertical_tableAttachInstancer (create_self (1 / 100) UpZ 1 1 1 2) 0)
       = [9]"
proof -
  have a: "(1 / 100 :: real) * 100 \<noteq> 0" by simp
  have b: "1 \<le> numLinks (create_self (1 / 100) UpZ 1 1 1 2)"
    by (simp add: numLinks_ten)
  show ?thesis
    using a b body_indices_in_range [OF a b, of 0]
    by (simp add: Let_def numLinks_ten)
qed

lemma numLinks_short: "numLinks (create_self (1 / 100) UpZ 1 (1 / 20) 1 2) = 0"
  by (rule numLinks_length_005)

text \<open>
  Claim C9 as stated includes the case of no link. A vertical rope of length 0.05 has
  \<open>numLinks = 0\<close>, is built without an error, and its table joint carries the link
  index -1 while its payload joint carries the link index 0.
\<close>

theorem body_indices_counterexample:
  "snd (create (1 / 100) UpZ 1 (1 / 20) 1 2 0) = None
   \<and> numLinks (create_self (1 / 100) UpZ 1 (1 / 20) 1 2) = 0
   \<and> JointInstancer 0 ''ropeTableCon''
        (vertical_tableAttachInstancer (create_self (1 / 100) UpZ 1 (1 / 20) 1 2) 0)
        \<in> set (fst (create (1 / 100) UpZ 1 (1 / 20) 1 2 0))
   \<and> physicsBody0s (vertical_tableAttachInstancer (create_self (1 / 100) UpZ 1 (1 / 20) 1 2) 0)
        = InstancerPath 0
   \<and> physicsBody0Indices (vertical_tableAttachInstancer (create_self (1 / 100) UpZ 1 (1 / 20) 1 2) 0)
        = [- 1]
   \<and> \<not> stage_indices_in_range (numLinks (create_self (1 / 100) UpZ 1 (1 / 20) 1 2))
         (fst (create (1 / 100) UpZ 1 (1 / 20) 1 2 0))"
  by (simp add: create_vertical [OF _ _ compute_numLinks_length_005] Let_def numLinks_short
      py_range_def vertical_rope_def
      stage_indices_in_range_append createPayload_def create_table_def create_box_def
      vertical_rigidBodyInstancer_def link_indices_in_range_def
      vertical_payloadAttachInstancer_def vertical_tableAttachInstancer_def)

lemma joint_instancers_vertical_rope:
  "joint_instancers (fst (vertical_rope self r)) =
     [(r, ''jointInstancer'', vertical_jointInstancer self r),
      (r, ''ropePayloadCon'', vertical_payloadAttachInstancer self r),
      (r, ''ropeTableCon'', vertical_tableAttachInstancer self r)]"
  by (simp add: vertical_rope_def vertical_rigidBodyInstancer_def)

lemma joint_instancers_multi_rope:
  "1 \<le> numLinks self \<Longrightarrow>
   joint_instancers (fst (multi_rope self e r)) =
     [(r, ''jointInstancer'', multi_jointInstancer self r),
      (r, ''ropePayloadCon'', multi_payloadAttachInstancer self e r),
      (r, ''ropeBoxCon'', multi_boxAttachInstancer self r)]"
  by (simp add: multi_rope_def multi_rigidBodyInstancer_def multi_box_def create_box_def
      Let_def joint_instancers_append split: prod.splits)

lemma joint_instancers_create_vertical:
  assumes "mpu * 100 \<noteq> 0" and "n < 2"
    and "compute_numLinks (create_self mpu up n L m h) = Inr k"
  shows "joint_instancers (fst (create mpu up n L m h e)) =
     concat (map (\<lambda>r.
        [(r, ''jointInstancer'', vertical_jointInstancer (create_self mpu up n L m h) r),
         (r, ''ropePayloadCon'', vertical_payloadAttachInstancer (create_self mpu up n L m h) r),
         (r, ''ropeTableCon'', vertical_tableAttachInstancer (create_self mpu up n L m h) r)])
       (py_range n))"
  by (simp add: create_vertical [OF assms] Let_def joint_instancers_append
      joint_instancers_concat createPayload_def create_table_def create_box_def
      joint_instancers_vertical_rope comp_def)

lemma joint_instancers_create_multi:
  assumes "mpu * 100 \<noteq> 0" and "2 \<le> n" and "1 \<le> numLinks (create_self mpu up n L m h)"
  shows "joint_instancers (fst (create mpu up n L m h e)) =
     concat (map (\<lambda>r.
        [(r, ''jointInstancer'', multi_jointInstancer (create_self mpu up n L m h) r),
         (r, ''ropePayloadCon'', multi_payloadAttachInstancer (create_self mpu up n L m h) e r),
         (r, ''ropeBoxCon'', multi_boxAttachInstancer (create_self mpu up n L m h) r)])
       (py_range n))"
  by (simp add: create_multi [OF assms] Let_def joint_instancers_append
      joint_instancers_concat createPayload_def
      joint_instancers_multi_rope [OF assms(3)] comp_def)

lemma chain_lengths_vertical:
  "array_lengths (vertical_jointInstancer self r) = replicate 7 (nat (numLinks self - 1))"
  by (simp add: array_lengths_def vertical_jointInstancer_def Let_def length_py_range
      numeral_eq_Suc)

lemma chain_lengths_multi:
  "array_lengths (multi_jointInstancer self r) = replicate 7 (nat (numLinks self - 1))"
  by (simp add: array_lengths_def multi_jointInstancer_def Let_def length_py_range
      numeral_eq_Suc)

lemma chain_links_vertical:
  "i < nat (numLinks self - 1) \<Longrightarrow>
     physicsBody0Indices (vertical_jointInstancer self r) ! i = int i
   \<and> physicsBody1Indices (vertical_jointInstancer self r) ! i = int i + 1"
  by (simp add: vertical_jointInstancer_def Let_def length_py_range nth_py_range)

lemma chain_links_multi:
  "i < nat (numLinks self - 1) \<Longrightarrow>
     physicsBody0Indices (multi_jointInstancer self r) ! i = int i
   \<and> physicsBody1Indices (multi_jointInstancer self r) ! i = int i + 1"
  by (simp add: multi_jointInstancer_def Let_def length_py_range nth_py_range)

lemma attach_lengths:
  "array_lengths (vertical_payloadAttachInstancer self r) = replicate 7 1"
  "array_lengths (vertical_tableAttachInstancer self r) = replicate 7 1"
  "array_lengths (multi_payloadAttachInstancer self e r) = replicate 7 1"
  "array_lengths (multi_boxAttachInstancer self r) = replicate 7 1"
  by (simp_all add: array_lengths_def vertical_payloadAttachInstancer_def
      vertical_tableAttachInstancer_def multi_payloadAttachInstancer_def
      multi_boxAttachInstancer_def Let_def numeral_eq_Suc)

lemma attach_bodies:
  "physicsBody0s (vertical_payloadAttachInstancer self r) = PayloadPath"
  "physicsBody1s (vertical_payloadAttachInstancer self r) = InstancerPath r"
  "physicsBody0s (vertical_tableAttachInstancer self r) = InstancerPath r"
  "physicsBody1s (vertical_tableAttachInstancer self r) = TableTopPath"
  "physicsBody0s (multi_payloadAttachInstancer self e r) = PayloadPath"
  "physicsBody1s (multi_payloadAttachInstancer self e r) = InstancerPath r"
  "physicsBody0s (multi_boxAttachInstancer self r) = InstancerPath r"
  "physicsBody1s (multi_boxAttachInstancer self r) = BoxPath r"
  by (simp_all add: vertical_payloadAttachInstancer_def
      vertical_tableAttachInstancer_def multi_payloadAttachInstancer_def
      multi_boxAttachInstancer_def Let_def)

text \<open>
  The radial layout with no link: the first rope's capsule, link arrays, chain joints and
  payload joint are written, then the arguments of \<open>create_box\<close> raise.
\<close>

lemma create_multi_no_link:
  "create (1 / 100) UpZ 2 (1 / 20) 1 2 0 =
     (createPayload (create_self (1 / 100) UpZ 2 (1 / 20) 1 2)
        @ [Capsule 0 ''X'',
           multi_rigidBodyInstancer (create_self (1 / 100) UpZ 2 (1 / 20) 1 2) 0 0,
           JointInstancer 0 ''jointInstancer''
             (multi_jointInstancer (create_self (1 / 100) UpZ 2 (1 / 20) 1 2) 0),
           JointInstancer 0 ''ropePayloadCon''
             (multi_payloadAttachInstancer (create_self (1 / 100) UpZ 2 (1 / 20) 1 2) 0 0)],
      Some UnboundLocalError)"
proof -
  have n: "numLinks (create_self (1 / 100) UpZ 2 (1 / 20) 1 2) = 0"
    by (rule numLinks_length_005)
  have r: "py_range 2 = [0, 1]"
    by (simp add: py_range_def upt_rec)
  show ?thesis
    by (simp add: create_def Let_def createMultiRopes_def compute_numLinks_length_005
        numRopes_create_self r multi_rope_def n)
qed

lemma chain_bodies:
  "physicsBody0s (vertical_jointInstancer self r) = InstancerPath r"
  "physicsBody1s (vertical_jointInstancer self r) = InstancerPath r"
  "physicsBody0s (multi_jointInstancer self r) = InstancerPath r"
  "physicsBody1s (multi_jointInstancer self r) = InstancerPath r"
  by (simp_all add: vertical_jointInstancer_def multi_jointInstancer_def Let_def)

subsection \<open>Joint counts (C1)\<close>

text \<open>
  Claim C1, amended. In an assembly of \<open>numLinks \<ge> 1\<close> links, built by either layout,
  each of the seven parallel arrays of the chain joint instancer has \<open>numLinks - 1\<close>
  entries, entry i joins link i to link i + 1 of the rope's own link collection, and the
  rope has exactly two further joint instancers of one joint each: the payload joint
  (payload to the rope's links) and the anchor joint (the rope's links to the table or to
  the rope's box). With one link the chain arrays are empty and the two attachment joints
  remain.
\<close>

theorem joint_counts:
  assumes "mpu * 100 \<noteq> 0" and "1 \<le> numLinks (create_self mpu up n L m h)"
  shows "(let self = create_self mpu up n L m h in
      snd (create mpu up n L m h e) = None
    \<and> (n < 2 \<longrightarrow> joint_instancers (fst (create mpu up n L m h e)) =
          concat (map (\<lambda>r.
             [(r, ''jointInstancer'', vertical_jointInstancer self r),
              (r, ''ropePayloadCon'', vertical_payloadAttachInstancer self r),
              (r, ''ropeTableCon'', vertical_tableAttachInstancer self r)]) (py_range n)))
    \<and> (2 \<le> n \<longrightarrow> joint_instancers (fst (create mpu up n L m h e)) =
          concat (map (\<lambda>r.
             [(r, ''jointInstancer'', multi_jointInstancer self r),
              (r, ''ropePayloadCon'', multi_payloadAttachInstancer self e r),
              (r, ''ropeBoxCon'', multi_boxAttachInstancer self r)]) (py_range n)))
    \<and> int (nat (numLinks self - 1)) = numLinks self - 1
    \<and> (\<forall>r. array_lengths (vertical_jointInstancer self r) = replicate 7 (nat (numLinks self - 1))
          \<and> array_lengths (multi_jointInstancer self r) = replicate 7 (nat (numLinks self - 1))
          \<and> array_lengths (vertical_payloadAttachInstancer self r) = replicate 7 1
          \<and> array_lengths (vertical_tableAttachInstancer self r) = replicate 7 1
          \<and> array_lengths (multi_payloadAttachInstancer self e r) = replicate 7 1
          \<and> array_lengths (multi_boxAttachInstancer self r) = replicate 7 1
          \<and> physicsBody0s (vertical_jointInstancer self r) = InstancerPath r
          \<and> physicsBody1s (vertical_jointInstancer self r) = InstancerPath r
          \<and> physicsBody0s (multi_jointInstancer self r) = InstancerPath r
          \<and> physicsBody1s (multi_jointInstancer self r) = InstancerPath r
          \<and> physicsBody0s (vertical_payloadAttachInstancer self r) = PayloadPath
          \<and> physicsBody1s (vertical_payloadAttachInstancer self r) = InstancerPath r
          \<and> physicsBody0s (vertical_tableAttachInstancer self r) = InstancerPath r
          \<and> physicsBody1s (vertical_tableAttachInstancer self r) = TableTopPath
          \<and> physicsBody0s (multi_payloadAttachInstancer self e r) = PayloadPath
          \<and> physicsBody1s (multi_payloadAttachInstancer self e r) = InstancerPath r
          \<and> physicsBody0s (multi_boxAttachInstancer self r) = InstancerPath r
          \<and> physicsBody1s (multi_boxAttachInstancer self r) = BoxPath r
          \<and> (\<forall>i < nat (numLinks self - 1).
                physicsBody0Indices (vertical_jointInstancer self r) ! i = int i
              \<and> physicsBody1Indices (vertical_jointInstancer self r) ! i = int i + 1
              \<and> physicsBody0Indices (multi_jointInstancer self r) ! i = int i
              \<and> physicsBody1Indices (multi_jointInstancer self r) ! i = int i + 1)))"
proof -
  let ?self = "create_self mpu up n L m h"
  have ok: "snd (create mpu up n L m h e) = None"
    by (rule create_ok [OF assms])
  have cnt: "int (nat (numLinks ?self - 1)) = numLinks ?self - 1"
    using assms(2) by simp
  show ?thesis
    unfolding Let_def
    using ok cnt joint_instancers_create_vertical [OF assms(1) _ compute_of_numLinks [OF assms(2)]]
      joint_instancers_create_multi [OF assms(1) _ assms(2)]
      chain_lengths_vertical chain_lengths_multi attach_lengths attach_bodies chain_bodies
      chain_links_vertical chain_links_multi
    by simp
qed

text \<open>Witness for C1: one vertical rope of ten links, nine chain joints.\<close>

theorem joint_counts_witness:
  "(1 / 100 :: real) * 100 \<noteq> 0
   \<and> 1 \<le> numLinks (create_self (1 / 100) UpZ 1 1 1 2)
   \<and> snd (create (1 / 100) UpZ 1 1 1 2 0) = None
   \<and> joint_instancers (fst (create (1 / 100) UpZ 1 1 1 2 0)) =
       [(0, ''jointInstancer'', vertical_jointInstancer (create_self (1 / 100) UpZ 1 1 1 2) 0),
        (0, ''ropePayloadCon'',
         vertical_payloadAttachInstancer (create_self (1 / 100) UpZ 1 1 1 2) 0),
        (0, ''ropeTableCon'', vertical_tableAttachInstancer (create_self (1 / 100) UpZ 1 1 1 2) 0)]
   \<and> array_lengths (vertical_jointInstancer (create_self (1 / 100) UpZ 1 1 1 2) 0)
       = [9, 9, 9, 9, 9, 9, 9]
   \<and> physicsBody0Indices (vertical_jointInstancer (create_self (1 / 100) UpZ 1 1 1 2) 0) ! 8 = 8
   \<and> physicsBody1Indices (vertical_jointInstancer (create_self (1 / 100) UpZ 1 1 1 2) 0) ! 8 = 9
   \<and> array_lengths (vertical_payloadAttachInstancer (create_self (1 / 100) UpZ 1 1 1 2) 0)
       = [1, 1, 1, 1, 1, 1, 1]
   \<and> array_lengths (vertical_tableAttachInstancer (create_self (1 / 100) UpZ 1 1 1 2) 0)
       = [1, 1, 1, 1, 1, 1, 1]"
proof -
  let ?self = "create_self (1 / 100) UpZ 1 1 1 2"
  have a: "(1 / 100 :: real) * 100 \<noteq> 0" by simp
  have n: "numLinks ?self = 10" by (rule numLinks_length_1)
  have b: "1 \<le> numLinks ?self" by (simp add: n)
  have r: "py_range 1 = [0]" by (simp add: py_range_def)
  note t = joint_counts [OF a b, of 0, unfolded Let_def n]
  from t have ok: "snd (create (1 / 100) UpZ 1 1 1 2 0) = None" by blast
  from t have st: "joint_instancers (fst (create (1 / 100) UpZ 1 1 1 2 0)) =
       [(0, ''jointInstancer'', vertical_jointInstancer ?self 0),
        (0, ''ropePayloadCon'', vertical_payloadAttachInstancer ?self 0),
        (0, ''ropeTableCon'', vertical_tableAttachInstancer ?self 0)]"
    by (simp add: r)
  from t have ch: "array_lengths (vertical_jointInstancer ?self 0) = replicate 7 (nat (10 - 1))"
    by blast
  from t have at: "array_lengths (vertical_payloadAttachInstancer ?self 0) = replicate 7 1"
      "array_lengths (vertical_tableAttachInstancer ?self 0) = replicate 7 1"
    by blast+
  from t have "\<forall>i < nat (10 - 1).
       physicsBody0Indices (vertical_jointInstancer ?self 0) ! i = int i
     \<and> physicsBody1Indices (vertical_jointInstancer ?self 0) ! i = int i + 1"
    by blast
  then have ix: "physicsBody0Indices (vertical_jointInstancer ?self 0) ! 8 = 8"
      "physicsBody1Indices (vertical_jointInstancer ?self 0) ! 8 = 9"
    by simp_all
  show ?thesis
    using a b ok st ch at ix by (simp add: numeral_eq_Suc)
qed

text \<open>
  Claim C1 as stated covers every assembly built, whatever its number of links. A rope of
  length 0.05 has \<open>numLinks = 0\<close>. The vertical layout builds it without an error and its
  chain arrays have no entry, which is not \<open>numLinks - 1 = - 1\<close>. The radial layout
  writes the chain and the payload joint of the first rope and then raises, so that rope
  has one attachment joint and not two.
\<close>

theorem joint_counts_counterexample:
  "snd (create (1 / 100) UpZ 1 (1 / 20) 1 2 0) = None
   \<and> numLinks (create_self (1 / 100) UpZ 1 (1 / 20) 1 2) = 0
   \<and> JointInstancer 0 ''jointInstancer''
        (vertical_jointInstancer (create_self (1 / 100) UpZ 1 (1 / 20) 1 2) 0)
        \<in> set (fst (create (1 / 100) UpZ 1 (1 / 20) 1 2 0))
   \<and> array_lengths (vertical_jointInstancer (create_self (1 / 100) UpZ 1 (1 / 20) 1 2) 0)
        = [0, 0, 0, 0, 0, 0, 0]
   \<and> int (length (physicsBody0Indices
            (vertical_jointInstancer (create_self (1 / 100) UpZ 1 (1 / 20) 1 2) 0)))
        \<noteq> numLinks (create_self (1 / 100) UpZ 1 (1 / 20) 1 2) - 1
   \<and> snd (create (1 / 100) UpZ 2 (1 / 20) 1 2 0) = Some UnboundLocalError
   \<and> joint_instancers (fst (create (1 / 100) UpZ 2 (1 / 20) 1 2 0)) =
        [(0, ''jointInstancer'', multi_jointInstancer (create_self (1 / 100) UpZ 2 (1 / 20) 1 2) 0),
         (0, ''ropePayloadCon'',
          multi_payloadAttachInstancer (create_self (1 / 100) UpZ 2 (1 / 20) 1 2) 0 0)]"
proof -
  let ?v = "create_self (1 / 100) UpZ 1 (1 / 20) 1 2"
  have n: "numLinks ?v = 0" by (rule numLinks_length_005)
  have r: "py_range 1 = [0]" by (simp add: py_range_def)
  have v: "snd (create (1 / 100) UpZ 1 (1 / 20) 1 2 0) = None
     \<and> JointInstancer 0 ''jointInstancer'' (vertical_jointInstancer ?v 0)
          \<in> set (fst (create (1 / 100) UpZ 1 (1 / 20) 1 2 0))"
    by (simp add: create_vertical [OF _ _ compute_numLinks_length_005] Let_def r
        vertical_rope_def)
  have c: "array_lengths (vertical_jointInstancer ?v 0) = [0, 0, 0, 0, 0, 0, 0]"
    by (simp add: chain_lengths_vertical n numeral_eq_Suc)
  have d: "int (length (physicsBody0Indices (vertical_jointInstancer ?v 0))) \<noteq> numLinks ?v - 1"
    by (simp add: chain_indices n length_py_range)
  have m: "snd (create (1 / 100) UpZ 2 (1 / 20) 1 2 0) = Some UnboundLocalError
     \<and> joint_instancers (fst (create (1 / 100) UpZ 2 (1 / 20) 1 2 0)) =
        [(0, ''jointInstancer'', multi_jointInstancer (create_self (1 / 100) UpZ 2 (1 / 20) 1 2) 0),
         (0, ''ropePayloadCon'',
          multi_payloadAttachInstancer (create_self (1 / 100) UpZ 2 (1 / 20) 1 2) 0 0)]"
    by (simp add: create_multi_no_link joint_instancers_append createPayload_def
        multi_rigidBodyInstancer_def)
  show ?thesis using n v c d m by simp
qed

subsection \<open>The cable joint (C5, C6)\<close>

text \<open>
  Claim C5. On every cable joint that \<open>_createCableJoint\<close> makes, for a configuration set
  by \<open>create\<close> and any axis argument, the slide DOF's limit stiffness is 11 times the drive
  stiffness (so it exceeds it), the limit damping is the drive damping, the limit contact
  distance is 0.0001 and the drive's force cap is 10 times the payload mass times 9.81.
\<close>

theorem cable_joint_numeric_policy:
  "(let self = create_self mpu up n L m h; j = createCableJoint self axis in
      map plx_stiffness (physxLimits j) = [11 * slide_stiffness self]
    \<and> map drv_stiffness (drives j) = [slide_stiffness self]
    \<and> slide_stiffness self = 100000
    \<and> 11 * slide_stiffness self > slide_stiffness self
    \<and> map plx_damping (physxLimits j) = [slide_damping self]
    \<and> map drv_damping (drives j) = [slide_damping self]
    \<and> slide_damping self = 1000
    \<and> map plx_contactDistance (physxLimits j) = [1 / 10000]
    \<and> map drv_maxForce (drives j) = [10 * m * (981 / 100)]
    \<and> payloadMass self = m
    \<and> map plx_dof (physxLimits j) = map drv_dof (drives j))"
  by (simp add: Let_def createCableJoint_def create_self_def)

text \<open>
  Claim C6. For each axis argument X, Y or Z the cable joint limits the translation along
  that axis to low -1 and high 0.01 and puts the limit stiffness and the drive on it, locks
  the other two translations with low = high = 0, and applies the limit API to the three
  rotations without creating a low or a high attribute.
\<close>

theorem cable_joint_dofs:
  assumes "axis \<in> {''X'', ''Y'', ''Z''}"
  shows "(let j = createCableJoint self axis in
      limit_of j (''trans'' @ axis) = Some (Some (- 1), Some (1 / 100))
    \<and> (\<forall>a \<in> {''X'', ''Y'', ''Z''} - {axis}. limit_of j (''trans'' @ a) = Some (Some 0, Some 0))
    \<and> (\<forall>a \<in> {''X'', ''Y'', ''Z''}. limit_of j (''rot'' @ a) = Some (None, None))
    \<and> map drv_dof (drives j) = [''trans'' @ axis]
    \<and> map plx_dof (physxLimits j) = [''trans'' @ axis]
    \<and> length (limits j) = 6)"
  using assms by (auto simp add: Let_def createCableJoint_def limit_of_def)

text \<open>Witness for C6: the axis X of the radial layout.\<close>

theorem cable_joint_dofs_witness:
  "''X'' \<in> {''X'', ''Y'', ''Z''}
   \<and> limit_of (createCableJoint (create_self (1 / 100) UpZ 4 1 1 2) ''X'') ''transX''
        = Some (Some (- 1), Some (1 / 100))
   \<and> limit_of (createCableJoint (create_self (1 / 100) UpZ 4 1 1 2) ''X'') ''transY''
        = Some (Some 0, Some 0)
   \<and> limit_of (createCableJoint (create_self (1 / 100) UpZ 4 1 1 2) ''X'') ''transZ''
        = Some (Some 0, Some 0)
   \<and> limit_of (createCableJoint (create_self (1 / 100) UpZ 4 1 1 2) ''X'') ''rotX''
        = Some (None, None)"
proof -
  have a: "''X'' \<in> {''X'', ''Y'', ''Z''}" by simp
  show ?thesis
    using a cable_joint_dofs [OF a, of "create_self (1 / 100) UpZ 4 1 1 2"]
    by (simp add: Let_def)
qed

subsection \<open>The universal joint (C7)\<close>

text \<open>
  Claim C7 fails on the code. \<open>_createUniJoint\<close> locks the three translations and rotZ and
  bounds rotX and rotY by the cone limit of 160 whatever the layout. In the radial layout
  the links are capsules along X and the chain joints slide along transX, so the rotation
  about the chain's own axis is rotX: at the box joint it is bounded by the cone limit and
  not locked, while rotZ, a swing, is locked.
\<close>

theorem uni_joint_dofs:
  "(let self = create_self mpu up n L m h; j = createUniJoint self in
      limit_of j ''transX'' = Some (Some 0, Some 0)
    \<and> limit_of j ''transY'' = Some (Some 0, Some 0)
    \<and> limit_of j ''transZ'' = Some (Some 0, Some 0)
    \<and> limit_of j ''rotZ'' = Some (Some 0, Some 0)
    \<and> limit_of j ''rotX'' = Some (Some (- 160), Some 160)
    \<and> limit_of j ''rotY'' = Some (Some (- 160), Some 160)
    \<and> physicsPrototype (multi_boxAttachInstancer self r) = j
    \<and> fst (multi_rope self e r) ! 0 = Capsule r ''X''
    \<and> map drv_dof (drives (physicsPrototype (multi_jointInstancer self r))) = [''transX''])"
  by (simp add: Let_def createUniJoint_def limit_of_def create_self_def
      multi_boxAttachInstancer_def multi_rope_def multi_jointInstancer_def createCableJoint_def)

subsection \<open>The number of links (C4)\<close>



text \<open>
  A rope so long that the quotient overflows: \<open>int\<close> raises in the first statement of the
  builder, after the payload and the table have been written.
\<close>

lemma create_overflow:
  "create (1 / 100) UpZ 1 (2 ^ 1023) 1 2 0 =
     (createPayload (create_self (1 / 100) UpZ 1 (2 ^ 1023) 1 2)
        @ create_table (create_self (1 / 100) UpZ 1 (2 ^ 1023) 1 2),
      Some OverflowError)"
proof -
  have z: "((1 / 100 :: real) * 100 = 0) = False" by simp
  have n: "((1 :: int) < 2) = True" by simp
  show ?thesis
    unfolding create_def
    by (simp only: z n if_False if_True Let_def createVerticalRopes_def
        compute_numLinks_length_huge sum.case prod.case append_Nil2)
qed


subsection \<open>Joint archetypes of the attachments (C10)\<close>

lemma joint_instancers_member:
  "((r, nm, ji) \<in> set (joint_instancers ps)) = (JointInstancer r nm ji \<in> set ps)"
  by (induction ps rule: joint_instancers.induct) auto

lemma run_ropes_member:
  "p \<in> set (fst (run_ropes body is)) \<Longrightarrow> \<exists>i \<in> set is. p \<in> set (fst (body i))"
proof (induction "is")
  case Nil
  then show ?case by simp
next
  case (Cons i rest)
  then show ?case
    by (cases "body i"; cases "snd (body i)"; cases "run_ropes body rest") auto
qed

lemma vertical_rope_archetypes:
  assumes "JointInstancer r nm ji \<in> set (fst (vertical_rope self i))" and "numRopes self < 2"
  shows "attachment_archetype_ok self (nm, physicsPrototype ji)"
proof -
  from assms(1) have
    "(nm, ji) = (''jointInstancer'', vertical_jointInstancer self i)
     \<or> (nm, ji) = (''ropePayloadCon'', vertical_payloadAttachInstancer self i)
     \<or> (nm, ji) = (''ropeTableCon'', vertical_tableAttachInstancer self i)"
    by (simp add: vertical_rope_def vertical_rigidBodyInstancer_def) blast
  then show ?thesis
    using assms(2)
    by (elim disjE)
       (simp_all add: attachment_archetype_ok_def vertical_jointInstancer_def
          vertical_payloadAttachInstancer_def vertical_tableAttachInstancer_def Let_def)
qed

lemma multi_rope_members:
  "set (fst (multi_rope self e i)) \<subseteq>
     {Capsule i ''X'', multi_rigidBodyInstancer self e i,
      JointInstancer i ''jointInstancer'' (multi_jointInstancer self i),
      JointInstancer i ''ropePayloadCon'' (multi_payloadAttachInstancer self e i),
      JointInstancer i ''ropeBoxCon'' (multi_boxAttachInstancer self i)}
     \<union> set (multi_box self e i)"
  by (cases "numLinks self \<le> 0") (auto simp add: multi_rope_def Let_def)

lemma multi_box_no_joint: "JointInstancer r nm ji \<notin> set (multi_box self e i)"
  by (simp add: multi_box_def create_box_def Let_def case_prod_beta)

lemma multi_rope_archetypes:
  assumes "JointInstancer r nm ji \<in> set (fst (multi_rope self e i))" and "\<not> numRopes self < 2"
  shows "attachment_archetype_ok self (nm, physicsPrototype ji)"
proof -
  from assms(1) multi_rope_members [of self e i] multi_box_no_joint [of r nm ji self e i] have
    "(nm, ji) = (''jointInstancer'', multi_jointInstancer self i)
     \<or> (nm, ji) = (''ropePayloadCon'', multi_payloadAttachInstancer self e i)
     \<or> (nm, ji) = (''ropeBoxCon'', multi_boxAttachInstancer self i)"
    by (auto simp add: multi_rigidBodyInstancer_def)
  then show ?thesis
    using assms(2)
    by (elim disjE)
       (simp_all add: attachment_archetype_ok_def multi_jointInstancer_def
          multi_payloadAttachInstancer_def multi_boxAttachInstancer_def Let_def)
qed

lemma createVerticalRopes_stage:
  "fst (createVerticalRopes self) = []
   \<or> fst (createVerticalRopes self) = fst (run_ropes (vertical_rope self) (py_range (numRopes self)))"
  by (cases "compute_numLinks self") (simp_all add: createVerticalRopes_def)

lemma createMultiRopes_stage:
  "fst (createMultiRopes self e) = []
   \<or> fst (createMultiRopes self e) = fst (run_ropes (multi_rope self e) (py_range (numRopes self)))"
  by (cases "compute_numLinks self") (simp_all add: createMultiRopes_def)

lemma create_stage_cases:
  assumes "p \<in> set (fst (create mpu up n L m h e))"
  shows "p \<in> set (createPayload (create_self mpu up n L m h))
       \<or> p \<in> set (create_table (create_self mpu up n L m h))
       \<or> (n < 2 \<and> (\<exists>i. p \<in> set (fst (vertical_rope (create_self mpu up n L m h) i))))
       \<or> (\<not> n < 2 \<and> (\<exists>i. p \<in> set (fst (multi_rope (create_self mpu up n L m h) e i))))"
proof -
  let ?self = "create_self mpu up n L m h"
  have nr: "numRopes ?self = n" by (rule numRopes_create_self)
  from assms have z: "mpu * 100 \<noteq> 0"
    by (cases "mpu * 100 = 0") (simp_all add: create_def)
  show ?thesis
  proof (cases "n < 2")
    case True
    have "fst (create mpu up n L m h e) =
            createPayload ?self @ create_table ?self @ fst (createVerticalRopes ?self)"
      using z True by (simp add: create_def Let_def case_prod_beta)
    with assms have "p \<in> set (createPayload ?self) \<or> p \<in> set (create_table ?self)
        \<or> p \<in> set (fst (createVerticalRopes ?self))"
      by simp
    then have "p \<in> set (createPayload ?self) \<or> p \<in> set (create_table ?self)
        \<or> p \<in> set (fst (run_ropes (vertical_rope ?self) (py_range n)))"
      using createVerticalRopes_stage [of ?self] nr by auto
    then show ?thesis using run_ropes_member [of p "vertical_rope ?self"] True by blast
  next
    case False
    have "fst (create mpu up n L m h e) = createPayload ?self @ fst (createMultiRopes ?self e)"
      using z False by (simp add: create_def Let_def case_prod_beta)
    with assms have "p \<in> set (createPayload ?self)
        \<or> p \<in> set (fst (createMultiRopes ?self e))"
      by simp
    then have "p \<in> set (createPayload ?self)
        \<or> p \<in> set (fst (run_ropes (multi_rope ?self e) (py_range n)))"
      using createMultiRopes_stage [of ?self e] nr by auto
    then show ?thesis using run_ropes_member [of p "multi_rope ?self e"] False by blast
  qed
qed

lemma create_archetypes:
  assumes "JointInstancer r nm ji \<in> set (fst (create mpu up n L m h e))"
  shows "attachment_archetype_ok (create_self mpu up n L m h) (nm, physicsPrototype ji)"
proof -
  let ?self = "create_self mpu up n L m h"
  have nr: "numRopes ?self = n" by (rule numRopes_create_self)
  have a: "JointInstancer r nm ji \<notin> set (createPayload ?self)"
    by (simp add: createPayload_def)
  have b: "JointInstancer r nm ji \<notin> set (create_table ?self)"
    by (simp add: create_table_def create_box_def Let_def)
  from create_stage_cases [OF assms] a b
  consider i where "n < 2" "JointInstancer r nm ji \<in> set (fst (vertical_rope ?self i))"
    | i where "\<not> n < 2" "JointInstancer r nm ji \<in> set (fst (multi_rope ?self e i))"
    by blast
  then show ?thesis
  proof cases
    case 1
    then show ?thesis using vertical_rope_archetypes [of r nm ji ?self i] nr by simp
  next
    case 2
    then show ?thesis using multi_rope_archetypes [of r nm ji ?self e i] nr by simp
  qed
qed

lemma archetypes_distinct:
  "createCableJoint self axis \<noteq> createUniJoint self'"
  "createCableJoint self axis \<noteq> createFixJoint self'"
  "createUniJoint self \<noteq> createFixJoint self'"
proof -
  have d: "drives (createCableJoint self axis) \<noteq> []"
    by (simp add: createCableJoint_def)
  have u: "drives (createUniJoint self') = []" by (simp add: createUniJoint_def)
  have f: "drives (createFixJoint self') = []" by (simp add: createFixJoint_def)
  show "createCableJoint self axis \<noteq> createUniJoint self'" using d u by auto
  show "createCableJoint self axis \<noteq> createFixJoint self'" using d f by auto
  have "lim_low (hd (limits (createUniJoint self)))
          \<noteq> lim_low (hd (limits (createFixJoint self')))"
    by (simp add: createUniJoint_def createFixJoint_def)
  then show "createUniJoint self \<noteq> createFixJoint self'" by auto
qed

lemma payload_policy:
  "numeric_policy (createCableJoint self a) = numeric_policy (createCableJoint self b)"
  by (simp add: numeric_policy_def createCableJoint_def)



lemma archetype_ok_cases:
  assumes "attachment_archetype_ok self (nm, j)"
  shows "(nm = ''ropePayloadCon'' \<and> j = createCableJoint self ''Z'')
       \<or> (nm \<noteq> ''ropePayloadCon'' \<and> j = createUniJoint self)
       \<or> (nm \<noteq> ''ropePayloadCon'' \<and> (\<exists>axis. j = createCableJoint self axis))"
proof (cases "nm = ''ropePayloadCon''")
  case True
  then show ?thesis using assms by (simp add: attachment_archetype_ok_def)
next
  case False
  show ?thesis
  proof (cases "nm = ''ropeTableCon'' \<or> nm = ''ropeBoxCon''")
    case True
    then show ?thesis using assms False by (simp add: attachment_archetype_ok_def)
  next
    case nt: False
    have "j = createCableJoint self (if numRopes self < 2 then ''Z'' else ''X'')"
      using assms False nt by (simp add: attachment_archetype_ok_def split: if_splits)
    then show ?thesis using False by blast
  qed
qed

lemma stage_archetypes:
  assumes "x \<in> set (joint_instancers (fst (create mpu up n L m h e)))"
  shows "attachment_archetype_ok (create_self mpu up n L m h)
           (fst (snd x), physicsPrototype (snd (snd x)))
      \<and> physicsPrototype (snd (snd x)) \<noteq> createFixJoint (create_self mpu up n L m h)
      \<and> (physicsPrototype (snd (snd x)) = createUniJoint (create_self mpu up n L m h))
          = (fst (snd x) = ''ropeTableCon'' \<or> fst (snd x) = ''ropeBoxCon'')"
proof -
  let ?self = "create_self mpu up n L m h"
  obtain r nm ji where x: "x = (r, nm, ji)" by (cases x) auto
  have ok: "attachment_archetype_ok ?self (nm, physicsPrototype ji)"
    using assms create_archetypes by (simp add: x joint_instancers_member)
  have nofix: "physicsPrototype ji \<noteq> createFixJoint ?self"
    using archetype_ok_cases [OF ok] archetypes_distinct(2) archetypes_distinct(3)
    by metis
  have uni: "(physicsPrototype ji = createUniJoint ?self)
               = (nm = ''ropeTableCon'' \<or> nm = ''ropeBoxCon'')"
  proof (cases "nm = ''ropeTableCon'' \<or> nm = ''ropeBoxCon''")
    case True
    then show ?thesis using ok by (auto simp add: attachment_archetype_ok_def)
  next
    case False
    then have "\<exists>axis. physicsPrototype ji = createCableJoint ?self axis"
      using ok by (auto simp add: attachment_archetype_ok_def split: if_splits)
    then show ?thesis using False archetypes_distinct(1) by metis
  qed
  show ?thesis using ok nofix uni by (simp add: x)
qed


lemma rope_prototypes:
  "physicsPrototype (vertical_jointInstancer self r) = createCableJoint self ''Z''"
  "physicsPrototype (vertical_payloadAttachInstancer self r) = createCableJoint self ''Z''"
  "physicsPrototype (vertical_tableAttachInstancer self r) = createUniJoint self"
  "physicsPrototype (multi_jointInstancer self r) = createCableJoint self ''X''"
  "physicsPrototype (multi_payloadAttachInstancer self e r) = createCableJoint self ''Z''"
  "physicsPrototype (multi_boxAttachInstancer self r) = createUniJoint self"
  by (simp_all add: vertical_payloadAttachInstancer_def multi_payloadAttachInstancer_def
      vertical_tableAttachInstancer_def multi_boxAttachInstancer_def
      vertical_jointInstancer_def multi_jointInstancer_def Let_def)

text \<open>
  Claim C10. In both layouts the prototype of the payload joint is made by
  \<open>_createCableJoint\<close>, with the same spring and damper numbers as the chain joints of the
  rope; among the joint instancers that any call of \<open>create\<close> writes, the prototype is
  the one \<open>_createUniJoint\<close> makes exactly for the table joint and the box joint, and
  it is never the one \<open>_createFixJoint\<close> makes.
\<close>

theorem attachment_archetypes:
  "(let self = create_self mpu up n L m h in
     (\<forall>x \<in> set (joint_instancers (fst (create mpu up n L m h e))).
        attachment_archetype_ok self (fst (snd x), physicsPrototype (snd (snd x)))
      \<and> physicsPrototype (snd (snd x)) \<noteq> createFixJoint self
      \<and> (physicsPrototype (snd (snd x)) = createUniJoint self)
          = (fst (snd x) = ''ropeTableCon'' \<or> fst (snd x) = ''ropeBoxCon''))
   \<and> (\<forall>r. physicsPrototype (vertical_payloadAttachInstancer self r) = createCableJoint self ''Z''
         \<and> physicsPrototype (multi_payloadAttachInstancer self e r) = createCableJoint self ''Z''
         \<and> physicsPrototype (vertical_tableAttachInstancer self r) = createUniJoint self
         \<and> physicsPrototype (multi_boxAttachInstancer self r) = createUniJoint self
         \<and> numeric_policy (physicsPrototype (vertical_payloadAttachInstancer self r))
             = numeric_policy (physicsPrototype (vertical_jointInstancer self r))
         \<and> numeric_policy (physicsPrototype (multi_payloadAttachInstancer self e r))
             = numeric_policy (physicsPrototype (multi_jointInstancer self r))))"
  unfolding Let_def rope_prototypes
proof (intro conjI ballI allI)
  fix x
  assume "x \<in> set (joint_instancers (fst (create mpu up n L m h e)))"
  note s = stage_archetypes [OF this]
  show "attachment_archetype_ok (create_self mpu up n L m h)
          (fst (snd x), physicsPrototype (snd (snd x)))"
    using s by (rule conjunct1)
  show "physicsPrototype (snd (snd x)) \<noteq> createFixJoint (create_self mpu up n L m h)"
    using s by (elim conjE)
  show "(physicsPrototype (snd (snd x)) = createUniJoint (create_self mpu up n L m h))
          = (fst (snd x) = ''ropeTableCon'' \<or> fst (snd x) = ''ropeBoxCon'')"
    using s by (elim conjE)
qed (simp_all add: payload_policy [of _ "''Z''" "''X''"])

text \<open>Witness for C10: the payload joint of one vertical rope of ten links.\<close>

theorem attachment_archetypes_witness:
  "(0, ''ropePayloadCon'', vertical_payloadAttachInstancer (create_self (1 / 100) UpZ 1 1 1 2) 0)
     \<in> set (joint_instancers (fst (create (1 / 100) UpZ 1 1 1 2 0)))
   \<and> attachment_archetype_ok (create_self (1 / 100) UpZ 1 1 1 2)
       (''ropePayloadCon'',
        physicsPrototype (vertical_payloadAttachInstancer (create_self (1 / 100) UpZ 1 1 1 2) 0))
   \<and> physicsPrototype (vertical_payloadAttachInstancer (create_self (1 / 100) UpZ 1 1 1 2) 0)
       \<noteq> createFixJoint (create_self (1 / 100) UpZ 1 1 1 2)
   \<and> physicsPrototype (multi_boxAttachInstancer (create_self (1 / 100) UpZ 1 1 1 2) 0)
       = createUniJoint (create_self (1 / 100) UpZ 1 1 1 2)"
proof -
  let ?self = "create_self (1 / 100) UpZ 1 1 1 2"
  have mem: "(0, ''ropePayloadCon'', vertical_payloadAttachInstancer ?self 0)
     \<in> set (joint_instancers (fst (create (1 / 100) UpZ 1 1 1 2 0)))"
    by (simp add: joint_instancers_create_vertical [OF _ _ compute_numLinks_length_1]
        py_range_def)
  show ?thesis
    using mem attachment_archetypes [of "1 / 100" UpZ 1 1 1 2 0]
    by (auto simp add: Let_def)
qed

subsection \<open>Radial geometry (C2, C3, C8)\<close>

lemma GetNormalized_z: "GetNormalized (0, 0, 1) = (0, 0, 1)"
  by simp

lemma GetNormalized_minus_y: "GetNormalized (0, - 1, 0) = (0, - 1, 0)"
  by simp

lemma calculate_orientation_z:
  "calculate_orientation a (0, 0, 1) = (cos (a / 2), 0, 0, sin (a / 2))"
  by (simp add: calculate_orientation_def Let_def)

lemma calculate_orientation_minus_y:
  "calculate_orientation e (0, - 1, 0) = (cos (e / 2), 0, - sin (e / 2), 0)"
  by (simp add: calculate_orientation_def Let_def)

lemma rope_orientation_components:
  "rope_orientation self e r =
     (cos (rope_angle self r / 2) * cos (e / 2),
      sin (rope_angle self r / 2) * sin (e / 2),
      - (cos (rope_angle self r / 2) * sin (e / 2)),
      sin (rope_angle self r / 2) * cos (e / 2))"
  by (simp add: rope_orientation_def calculate_orientation_z calculate_orientation_minus_y)

lemma half_angle_cos: "cos (x::real) = (cos (x / 2))\<^sup>2 - (sin (x / 2))\<^sup>2"
  using cos_double [of "x / 2"] by simp

lemma half_angle_sin: "sin (x::real) = 2 * sin (x / 2) * cos (x / 2)"
  using sin_double [of "x / 2"] by simp

lemma unit_product_norm:
  fixes ca sa ce se :: real
  assumes "ca\<^sup>2 + sa\<^sup>2 = 1" and "ce\<^sup>2 + se\<^sup>2 = 1"
  shows "ca * ce * (ca * ce) + sa * se * (sa * se) + ca * se * (ca * se) + sa * ce * (sa * ce) = 1"
proof -
  have "ca * ce * (ca * ce) + sa * se * (sa * se) + ca * se * (ca * se) + sa * ce * (sa * ce)
        = (ca\<^sup>2 + sa\<^sup>2) * (ce\<^sup>2 + se\<^sup>2)"
    by (simp add: power2_eq_square algebra_simps)
  then show ?thesis using assms by simp
qed

lemma Transform_forward:
  fixes ca sa ce se :: real
  assumes a: "ca\<^sup>2 + sa\<^sup>2 = 1" and e: "ce\<^sup>2 + se\<^sup>2 = 1"
  shows "Transform (ca * ce, sa * se, - (ca * se), sa * ce) (1, 0, 0)
         = ((ca\<^sup>2 - sa\<^sup>2) * (ce\<^sup>2 - se\<^sup>2), 2 * sa * ca * (ce\<^sup>2 - se\<^sup>2), 2 * se * ce)"
proof -
  have n: "ca * ce * (ca * ce) + sa * se * (sa * se) + ca * se * (ca * se) + sa * ce * (sa * ce) = 1"
    by (rule unit_product_norm [OF a e])
  have z: "2 * se * ce = 2 * se * ce * (ca\<^sup>2 + sa\<^sup>2)" using a by simp
  show ?thesis
    apply (simp add: n Let_def)
    apply (subst z)
    apply (simp add: power2_eq_square algebra_simps)
    done
qed

lemma rope_orientation_forward:
  "Transform (rope_orientation self e r) (1, 0, 0) = spec_direction (rope_angle self r) e"
proof -
  let ?a = "rope_angle self r"
  have a: "(cos (?a / 2))\<^sup>2 + (sin (?a / 2))\<^sup>2 = 1" by (simp add: add.commute)
  have e: "(cos (e / 2))\<^sup>2 + (sin (e / 2))\<^sup>2 = 1" by (simp add: add.commute)
  show ?thesis
    unfolding rope_orientation_components spec_direction_def
    by (simp only: Transform_forward [OF a e] half_angle_cos [symmetric])
       (simp add: half_angle_sin [symmetric])
qed

lemma Transform_yaw_minus_y:
  "Transform (calculate_orientation a (0, 0, 1)) (0, - 1, 0) = (sin a, - cos a, 0)"
proof -
  have n: "cos (a / 2) * cos (a / 2) + sin (a / 2) * sin (a / 2) = 1"
    using sin_cos_squared_add [of "a / 2"] by (simp add: power2_eq_square add.commute)
  show ?thesis
    unfolding calculate_orientation_z
    by (simp add: n Let_def half_angle_sin [of a] half_angle_cos [of a] power2_eq_square
        algebra_simps)
qed

lemma Transform_yaw_forward:
  "Transform (calculate_orientation a (0, 0, 1)) (1, 0, 0) = (cos a, sin a, 0)"
proof -
  have n: "cos (a / 2) * cos (a / 2) + sin (a / 2) * sin (a / 2) = 1"
    using sin_cos_squared_add [of "a / 2"] by (simp add: power2_eq_square add.commute)
  show ?thesis
    unfolding calculate_orientation_z
    by (simp add: n Let_def half_angle_sin [of a] half_angle_cos [of a] power2_eq_square
        algebra_simps)
qed

lemma calculate_orientation_yawed_axis:
  "calculate_orientation e (sin a, - cos a, 0)
     = (cos (e / 2), sin a * sin (e / 2), - (cos a * sin (e / 2)), 0)"
proof -
  have "sin a * sin a + cos a * cos a = 1"
    using sin_cos_squared_add [of a] by (simp add: power2_eq_square)
  then show ?thesis
    by (simp add: calculate_orientation_def Let_def)
qed

lemma yaw_then_pitch_product:
  fixes ca sa ce se :: real
  assumes u: "ca * ca + sa * sa = 1"
  shows "quat_mul (ce, 2 * sa * ca * se, - ((ca * ca - sa * sa) * se), 0) (ca, 0, 0, sa)
       = (ca * ce, sa * se, - (ca * se), sa * ce)"
proof -
  have x: "2 * sa * ca * se * ca - (ca * ca - sa * sa) * se * sa = sa * se"
  proof -
    have "2 * sa * ca * se * ca - (ca * ca - sa * sa) * se * sa
            = sa * se * (ca * ca + sa * sa)"
      by (simp add: algebra_simps)
    then show ?thesis by (simp add: u)
  qed
  have y: "(ca * ca - sa * sa) * se * ca + 2 * sa * ca * se * sa = ca * se"
  proof -
    have "(ca * ca - sa * sa) * se * ca + 2 * sa * ca * se * sa
            = ca * se * (ca * ca + sa * sa)"
      by (simp add: algebra_simps)
    then show ?thesis by (simp add: u)
  qed
  show ?thesis
    using x y by (simp add: algebra_simps)
qed

lemma rope_orientation_yaw_then_pitch:
  "rope_orientation self e r =
     quat_mul
       (calculate_orientation e
          (Transform (calculate_orientation (rope_angle self r) (0, 0, 1)) (0, - 1, 0)))
       (calculate_orientation (rope_angle self r) (0, 0, 1))"
proof -
  let ?a = "rope_angle self r"
  have u: "cos (?a / 2) * cos (?a / 2) + sin (?a / 2) * sin (?a / 2) = 1"
    using sin_cos_squared_add [of "?a / 2"] by (simp add: power2_eq_square add.commute)
  have s: "sin ?a = 2 * sin (?a / 2) * cos (?a / 2)"
    by (rule half_angle_sin)
  have c: "cos ?a = cos (?a / 2) * cos (?a / 2) - sin (?a / 2) * sin (?a / 2)"
    using half_angle_cos [of ?a] by (simp add: power2_eq_square)
  show ?thesis
    unfolding rope_orientation_components Transform_yaw_minus_y calculate_orientation_yawed_axis
    unfolding calculate_orientation_z
    by (subst s, subst c) (simp only: yaw_then_pitch_product [OF u])
qed

lemma Transform_quat_mul:
  assumes "w1 * w1 + x1 * x1 + y1 * y1 + z1 * z1 = 1"
      and "w2 * w2 + x2 * x2 + y2 * y2 + z2 * z2 = 1"
  shows "Transform (quat_mul (w1, x1, y1, z1) (w2, x2, y2, z2)) (px, py, pz)
       = Transform (w1, x1, y1, z1) (Transform (w2, x2, y2, z2) (px, py, pz))"
proof -
  have n: "(w1 * w2 - x1 * x2 - y1 * y2 - z1 * z2) * (w1 * w2 - x1 * x2 - y1 * y2 - z1 * z2)
         + (w1 * x2 + x1 * w2 + y1 * z2 - z1 * y2) * (w1 * x2 + x1 * w2 + y1 * z2 - z1 * y2)
         + (w1 * y2 - x1 * z2 + y1 * w2 + z1 * x2) * (w1 * y2 - x1 * z2 + y1 * w2 + z1 * x2)
         + (w1 * z2 + x1 * y2 - y1 * x2 + z1 * w2) * (w1 * z2 + x1 * y2 - y1 * x2 + z1 * w2)
         = (w1 * w1 + x1 * x1 + y1 * y1 + z1 * z1) * (w2 * w2 + x2 * x2 + y2 * y2 + z2 * z2)"
    by (simp add: algebra_simps)
  show ?thesis
    by (simp add: n assms Let_def) (simp add: algebra_simps)
qed

lemma calculate_orientation_z_unit:
  "calculate_orientation a (0, 0, 1) = (w, x, y, z) \<Longrightarrow> w * w + x * x + y * y + z * z = 1"
  using sin_cos_squared_add [of "a / 2"]
  by (auto simp add: calculate_orientation_z power2_eq_square add.commute)

lemma yawed_axis_norm:
  fixes ca sa ce se :: real
  assumes a: "sa * sa + ca * ca = 1" and e: "ce * ce + se * se = 1"
  shows "ce * ce + sa * se * (sa * se) + - (ca * se) * - (ca * se) + 0 * 0 = 1"
proof -
  have "ce * ce + sa * se * (sa * se) + - (ca * se) * - (ca * se) + 0 * 0
          = ce * ce + se * se * (sa * sa + ca * ca)"
    by (simp add: algebra_simps)
  also have "\<dots> = 1" by (simp only: a e mult_1_right)
  finally show ?thesis .
qed

lemma calculate_orientation_yawed_unit:
  assumes "calculate_orientation e (sin a, - cos a, 0) = (w, x, y, z)"
  shows "w * w + x * x + y * y + z * z = 1"
proof -
  have e: "cos (e / 2) * cos (e / 2) + sin (e / 2) * sin (e / 2) = 1"
    using sin_cos_squared_add [of "e / 2"] by (simp add: power2_eq_square add.commute)
  have a: "sin a * sin a + cos a * cos a = 1"
    using sin_cos_squared_add [of a] by (simp add: power2_eq_square)
  have c: "w = cos (e / 2)" "x = sin a * sin (e / 2)" "y = - (cos a * sin (e / 2))" "z = 0"
    using assms by (simp_all add: calculate_orientation_yawed_axis)
  show ?thesis
    unfolding c by (rule yawed_axis_norm [OF a e])
qed

lemma rope_orientation_applies_yaw_first:
  "Transform (rope_orientation self e r) v =
     Transform
       (calculate_orientation e
          (Transform (calculate_orientation (rope_angle self r) (0, 0, 1)) (0, - 1, 0)))
       (Transform (calculate_orientation (rope_angle self r) (0, 0, 1)) v)"
proof -
  let ?a = "rope_angle self r"
  obtain w1 x1 y1 z1 where p: "calculate_orientation e (sin ?a, - cos ?a, 0) = (w1, x1, y1, z1)"
    by (cases "calculate_orientation e (sin ?a, - cos ?a, 0)") auto
  obtain w2 x2 y2 z2 where q: "calculate_orientation ?a (0, 0, 1) = (w2, x2, y2, z2)"
    by (cases "calculate_orientation ?a (0, 0, 1)") auto
  obtain px py pz where v: "v = (px, py, pz)" by (cases v) auto
  have t: "Transform (calculate_orientation ?a (0, 0, 1)) (0, - 1, 0) = (sin ?a, - cos ?a, 0)"
    by (rule Transform_yaw_minus_y)
  have "rope_orientation self e r =
          quat_mul (calculate_orientation e (sin ?a, - cos ?a, 0))
            (calculate_orientation ?a (0, 0, 1))"
    using rope_orientation_yaw_then_pitch [of self e r] by (simp only: t)
  then have o: "rope_orientation self e r = quat_mul (w1, x1, y1, z1) (w2, x2, y2, z2)"
    by (simp only: p q)
  have m: "Transform (quat_mul (w1, x1, y1, z1) (w2, x2, y2, z2)) (px, py, pz)
         = Transform (w1, x1, y1, z1) (Transform (w2, x2, y2, z2) (px, py, pz))"
    by (rule Transform_quat_mul [OF calculate_orientation_yawed_unit [OF p]
          calculate_orientation_z_unit [OF q]])
  show ?thesis
    by (simp only: t) (simp only: o p q v m)
qed

lemma link_position_first: "link_position self e r 0 = startPos self e r"
  by (simp add: link_position_def Let_def case_prod_beta)

lemma link_position_step:
  "link_position self e r k =
     vadd (link_position self e r 0)
       (vscale (real_of_int k * linkLength self) (spec_direction (rope_angle self r) e))"
  by (simp add: link_position_def startPos_def spec_direction_def Let_def algebra_simps)

lemma payloadRadius_create_self: "payloadRadius (create_self mpu up n L m h) = 24 / 100"
  by (simp add: create_self_def)

lemma capsuleHalf_create_self: "capsuleHalf (create_self mpu up n L m h) = 1 / 20"
  by (simp add: capsuleHalf_def linkLength_create_self)

lemma payloadPos_create_self: "payloadPos (create_self mpu up n L m h) = (0, 0, h)"
  by (simp add: create_self_def)

lemma scaled_unit_norm:
  fixes d c s :: real
  assumes "s\<^sup>2 + c\<^sup>2 = 1" and "0 \<le> d"
  shows "sqrt ((d * c - 0)\<^sup>2 + (d * s - 0)\<^sup>2) = d"
proof -
  have "(d * c - 0)\<^sup>2 + (d * s - 0)\<^sup>2 = d\<^sup>2 * (s\<^sup>2 + c\<^sup>2)"
    by (simp add: power_mult_distrib algebra_simps)
  then have "(d * c - 0)\<^sup>2 + (d * s - 0)\<^sup>2 = d\<^sup>2"
    by (simp only: assms(1) mult_1_right)
  then show ?thesis using assms(2) by simp
qed

lemma first_link_distance:
  "axis_distance (payloadPos (create_self mpu up n L m h))
       (link_position (create_self mpu up n L m h) e r 0)
     = payloadRadius (create_self mpu up n L m h)
       + capsuleHalf (create_self mpu up n L m h) * cos e"
proof -
  let ?self = "create_self mpu up n L m h"
  let ?a = "rope_angle ?self r"
  let ?d = "payloadRadius ?self + capsuleHalf ?self * cos e"
  have "- 1 \<le> cos e" by simp
  then have "0 \<le> 24 / 100 + 1 / 20 * cos e" by linarith
  then have pos: "0 \<le> ?d"
    by (simp only: payloadRadius_create_self capsuleHalf_create_self)
  have sp: "link_position ?self e r 0 = (?d * cos ?a, ?d * sin ?a,
              initLoadHeight ?self + capsuleHalf ?self * sin e)"
    by (simp add: link_position_first startPos_def Let_def)
  have u: "(sin ?a)\<^sup>2 + (cos ?a)\<^sup>2 = 1" by simp
  show ?thesis
    unfolding sp payloadPos_create_self axis_distance.simps
    by (rule scaled_unit_norm [OF u pos])
qed

lemma rope_angles:
  "map (rope_angle self) (py_range (numRopes self))
     = map (\<lambda>i. real_of_int i * (2 * pi) / real_of_int (numRopes self)) (py_range (numRopes self))"
  by (simp add: rope_angle_def angle_increment_def)

lemma multi_rigidBodyInstancer_member:
  assumes "mpu * 100 \<noteq> 0" and "2 \<le> n" and "1 \<le> numLinks (create_self mpu up n L m h)"
    and "r \<in> set (py_range n)"
  shows "multi_rigidBodyInstancer (create_self mpu up n L m h) e r
           \<in> set (fst (create mpu up n L m h e))"
proof -
  have "multi_rigidBodyInstancer (create_self mpu up n L m h) e r
          \<in> set (fst (multi_rope (create_self mpu up n L m h) e r))"
    by (simp add: multi_rope_def Let_def)
  then show ?thesis
    using assms(4) by (auto simp add: create_multi [OF assms(1-3)] Let_def)
qed

lemma multi_positions:
  "positions_of (multi_rigidBodyInstancer self e r)
     = map (link_position self e r) (py_range (numLinks self))"
  by (simp add: multi_rigidBodyInstancer_def)

lemma multi_orientations:
  "orientations_of (multi_rigidBodyInstancer self e r)
     = replicate (nat (numLinks self)) (rope_orientation self e r)"
  by (simp add: multi_rigidBodyInstancer_def map_replicate_const length_py_range)

lemma collinear3_refl: "collinear3 v v"
  by (cases v) (simp add: collinear3_def)

text \<open>
  Claim C2. In the radial layout (at least two ropes) the azimuth of rope i is
  \<open>i * 2 * pi / N\<close>; the first link of every rope lies at horizontal distance
  \<open>payloadRadius + capsuleHalf * cos elevation\<close> from the vertical axis through the payload,
  where \<open>capsuleHalf\<close> is half the link pitch; and link k lies at the first link's position
  plus k times the link pitch times the direction vector. These are the positions written
  on the rope's rigid body instancer, which is on the stage whenever the build has a link.
\<close>

theorem radial_link_positions:
  assumes "2 \<le> n"
  shows "(let self = create_self mpu up n L m h in
      map (rope_angle self) (py_range n)
        = map (\<lambda>i. real_of_int i * (2 * pi) / real_of_int n) (py_range n)
    \<and> (\<forall>r. positions_of (multi_rigidBodyInstancer self e r)
              = map (link_position self e r) (py_range (numLinks self))
          \<and> axis_distance (payloadPos self) (link_position self e r 0)
              = payloadRadius self + capsuleHalf self * cos e
          \<and> (\<forall>k. link_position self e r k =
                 vadd (link_position self e r 0)
                   (vscale (real_of_int k * linkLength self) (spec_direction (rope_angle self r) e))))
    \<and> (\<forall>r \<in> set (py_range n). mpu * 100 \<noteq> 0 \<and> 1 \<le> numLinks self \<longrightarrow>
          multi_rigidBodyInstancer self e r \<in> set (fst (create mpu up n L m h e))))"
proof -
  let ?self = "create_self mpu up n L m h"
  have a: "map (rope_angle ?self) (py_range n)
        = map (\<lambda>i. real_of_int i * (2 * pi) / real_of_int n) (py_range n)"
    using rope_angles [of ?self] by (simp only: numRopes_create_self)
  have b: "multi_rigidBodyInstancer ?self e r \<in> set (fst (create mpu up n L m h e))"
    if "r \<in> set (py_range n)" "mpu * 100 \<noteq> 0" "1 \<le> numLinks ?self" for r
    using multi_rigidBodyInstancer_member [OF that(2) assms that(3) that(1)] .
  show ?thesis
    unfolding Let_def
    using a b multi_positions first_link_distance link_position_step by blast
qed

text \<open>Witness for C2: four ropes of ten links at elevation 0.\<close>

theorem radial_link_positions_witness:
  "(2 :: int) \<le> 4
   \<and> axis_distance (payloadPos (create_self (1 / 100) UpZ 4 1 1 2))
        (link_position (create_self (1 / 100) UpZ 4 1 1 2) 0 0 0) = 29 / 100
   \<and> multi_rigidBodyInstancer (create_self (1 / 100) UpZ 4 1 1 2) 0 3
        \<in> set (fst (create (1 / 100) UpZ 4 1 1 2 0))"
proof -
  let ?self = "create_self (1 / 100) UpZ 4 1 1 2"
  have a: "(2 :: int) \<le> 4" by simp
  have b: "1 \<le> numLinks ?self"
    by (simp add: numLinks_length_1)
  have c: "(3 :: int) \<in> set (py_range 4)"
    by (simp add: py_range_def)
  note t = radial_link_positions [OF a, of "1 / 100" UpZ 1 1 2 0, unfolded Let_def]
  from t have "axis_distance (payloadPos ?self) (link_position ?self 0 0 0)
      = payloadRadius ?self + capsuleHalf ?self * cos 0"
    by blast
  then have d: "axis_distance (payloadPos ?self) (link_position ?self 0 0 0) = 29 / 100"
    by (simp add: payloadRadius_create_self capsuleHalf_create_self)
  from t c b have m: "multi_rigidBodyInstancer ?self 0 3 \<in> set (fst (create (1 / 100) UpZ 4 1 1 2 0))"
    by simp
  show ?thesis using a d m by simp
qed

text \<open>
  Claim C3. Every link of a rope carries the quaternion \<open>q_z * q_y\<close>. It is the yaw about
  the vertical axis by the rope's azimuth followed by the pitch by the elevation angle
  about the yawed axis \<open>(sin a, - cos a, 0)\<close>, which is horizontal and orthogonal to the
  yawed forward axis \<open>(cos a, sin a, 0)\<close>: as a product of quaternions, and as the rotation
  it applies to any vector. It takes the forward axis \<open>(1, 0, 0)\<close> to the direction vector
  used for the link positions, so the two are collinear.
\<close>

theorem radial_orientation:
  "(let self = create_self mpu up n L m h;
        yaw = calculate_orientation (rope_angle self r) (0, 0, 1);
        q = rope_orientation self e r
    in orientations_of (multi_rigidBodyInstancer self e r) = replicate (nat (numLinks self)) q
     \<and> q = quat_mul yaw (calculate_orientation e (0, - 1, 0))
     \<and> q = quat_mul (calculate_orientation e (Transform yaw (0, - 1, 0))) yaw
     \<and> (\<forall>v. Transform q v
              = Transform (calculate_orientation e (Transform yaw (0, - 1, 0))) (Transform yaw v))
     \<and> Transform yaw (1, 0, 0) = (cos (rope_angle self r), sin (rope_angle self r), 0)
     \<and> Transform yaw (0, - 1, 0) = (sin (rope_angle self r), - cos (rope_angle self r), 0)
     \<and> Transform q (1, 0, 0) = spec_direction (rope_angle self r) e
     \<and> collinear3 (Transform q (1, 0, 0)) (spec_direction (rope_angle self r) e))"
proof -
  let ?self = "create_self mpu up n L m h"
  have f: "Transform (calculate_orientation (rope_angle ?self r) (0, 0, 1)) (1, 0, 0)
             = (cos (rope_angle ?self r), sin (rope_angle ?self r), 0)"
    by (rule Transform_yaw_forward)
  show ?thesis
    unfolding Let_def
    using multi_orientations [of ?self e r] rope_orientation_yaw_then_pitch [of ?self e r]
      rope_orientation_applies_yaw_first [of ?self e r] f
      Transform_yaw_minus_y [of "rope_angle ?self r"]
      rope_orientation_forward [of ?self e r]
      collinear3_refl [of "spec_direction (rope_angle ?self r) e"]
    by (simp add: rope_orientation_def Let_def)
qed

lemma multi_payloadAttach_frames:
  "physicsLocalPos0s (multi_payloadAttachInstancer self e r)
     = [(payloadRadius self * cos (rope_angle self r), payloadRadius self * sin (rope_angle self r), 0)]"
  "physicsLocalPos1s (multi_payloadAttachInstancer self e r) = [(- capsuleHalf self, 0, 0)]"
  "physicsLocalRot0s (multi_payloadAttachInstancer self e r) = [rope_orientation self e r]"
  "physicsLocalRot1s (multi_payloadAttachInstancer self e r) = [quat_identity]"
  by (simp_all add: multi_payloadAttachInstancer_def Let_def)

text \<open>
  Claim C8. The payload is written with a translation only. The payload joint of rope r
  joins the payload to link 0 of the rope; its anchor on the payload is at
  \<open>(payloadRadius * cos angle, payloadRadius * sin angle, 0)\<close> with the rope's link
  orientation \<open>q_z * q_y\<close> (which turns the forward axis into the rope's direction), and its
  anchor on the link is at \<open>(- capsuleHalf, 0, 0)\<close> with the identity orientation.
\<close>

theorem radial_payload_anchor:
  "(let self = create_self mpu up n L m h;
        ji = multi_payloadAttachInstancer self e r;
        angle = rope_angle self r
    in createPayload self = [Payload (0, 0, h) (24 / 100) (6 / 100) m]
     \<and> physicsBody0s ji = PayloadPath
     \<and> physicsBody1s ji = InstancerPath r
     \<and> physicsBody1Indices ji = [0]
     \<and> physicsLocalPos0s ji = [(payloadRadius self * cos angle, payloadRadius self * sin angle, 0)]
     \<and> payloadRadius self = 24 / 100
     \<and> physicsLocalRot0s ji = [rope_orientation self e r]
     \<and> orientations_of (multi_rigidBodyInstancer self e r)
          = replicate (nat (numLinks self)) (rope_orientation self e r)
     \<and> rope_orientation self e r
          = quat_mul (calculate_orientation angle (0, 0, 1)) (calculate_orientation e (0, - 1, 0))
     \<and> Transform (rope_orientation self e r) (1, 0, 0) = spec_direction angle e
     \<and> physicsLocalPos1s ji = [(- capsuleHalf self, 0, 0)]
     \<and> capsuleHalf self = linkLength self * (1 / 2)
     \<and> physicsLocalRot1s ji = [quat_identity]
     \<and> quat_identity = (1, 0, 0, 0))"
proof -
  let ?self = "create_self mpu up n L m h"
  have p: "createPayload ?self = [Payload (0, 0, h) (24 / 100) (6 / 100) m]"
    by (simp add: createPayload_def create_self_def)
  show ?thesis
    unfolding Let_def
    using p attach_bodies(5,6) [of ?self e r] attach_indices(3) [of ?self e r]
      multi_payloadAttach_frames [of ?self e r] payloadRadius_create_self [of mpu up n L m h]
      multi_orientations [of ?self e r] rope_orientation_forward [of ?self e r]
    by (simp add: rope_orientation_def Let_def capsuleHalf_def quat_identity_def)
qed

end
